theory Spec2Isabelle
  imports Complex_Main "HOL-Library.Sublist" "HOL-Library.Word"
begin

section \<open>Text\<close>

text \<open>
  A Python \<open>str\<close> is modelled as a \<open>string\<close>, one \<open>char\<close> per character. HOL's
  \<open>char\<close> has 256 values, so the model covers text over the code points 0 to 255; on
  that range the functions below agree with Python's. The test \<open>needle in haystack\<close>
  on strings is \<^const>\<open>sublist\<close>: the needle occurs as a contiguous run.
\<close>

text \<open>\<open>str.lower()\<close>: the letters A to Z, and the upper-case letters of the range
  0xC0 to 0xDE (the multiplication sign 0xD7 is not a letter), move up by 32.\<close>

definition lower_char :: "char \<Rightarrow> char" where
  "lower_char c =
     (let n = (of_char c :: nat)
      in if (65 \<le> n \<and> n \<le> 90) \<or> (192 \<le> n \<and> n \<le> 222 \<and> n \<noteq> 215)
         then char_of (n + 32) else c)"

definition lower :: "string \<Rightarrow> string" where
  "lower s = map lower_char s"

text \<open>\<open>str.isspace()\<close> of one character: tab to carriage return, the four
  separators 0x1C to 0x1F, the space, NEL (0x85) and the no-break space (0xA0).\<close>

definition isspace :: "char \<Rightarrow> bool" where
  "isspace c =
     (let n = (of_char c :: nat)
      in (9 \<le> n \<and> n \<le> 13) \<or> (28 \<le> n \<and> n \<le> 32) \<or> n = 133 \<or> n = 160)"

text \<open>\<open>str.strip()\<close>: white space is dropped at both ends.\<close>

definition strip :: "string \<Rightarrow> string" where
  "strip s = rev (dropWhile isspace (rev (dropWhile isspace s)))"

text \<open>\<open>str.isascii()\<close>.\<close>

definition isascii :: "string \<Rightarrow> bool" where
  "isascii s = list_all (\<lambda>c. (of_char c :: nat) < 128) s"

text \<open>The decimal digits of a natural number, as \<open>str(n)\<close> and an f-string
  write them.\<close>

fun str_nat :: "nat \<Rightarrow> string" where
  "str_nat n =
     (if n < 10 then [''0123456789'' ! n]
      else str_nat (n div 10) @ [''0123456789'' ! (n mod 10)])"

declare str_nat.simps [simp del]

text \<open>The repr of a list of plain strings, as an f-string writes
  \<open>sorted(...)\<close>: \<open>['a', 'b']\<close>. The strings written this way in the
  program are fixed identifiers, which need no escaping.\<close>

definition quoted :: "string \<Rightarrow> string" where
  "quoted s = [CHR 0x27] @ s @ [CHR 0x27]"

fun join_repr :: "string list \<Rightarrow> string" where
  "join_repr [] = []"
| "join_repr [x] = quoted x"
| "join_repr (x # y # ys) = quoted x @ '', '' @ join_repr (y # ys)"

definition repr_list :: "string list \<Rightarrow> string" where
  "repr_list xs = ''['' @ join_repr xs @ '']''"

text \<open>Exceptions that leave a call of the program.\<close>

datatype py_error = ValueError | TypeError | UnicodeDecodeError | UnicodeEncodeError | OSError

section \<open>Mode detection (\<open>validate_agent.py\<close>, \<open>validate_mode_transitions\<close>)\<close>

definition OPERATIONAL :: string where "OPERATIONAL = ''operational''"
definition COMPANION :: string where "COMPANION = ''companion''"
definition ADMINISTRATIVE :: string where "ADMINISTRATIVE = ''administrative''"

definition COMPANION_PHRASES :: "string list" where
  "COMPANION_PHRASES = [''ariadne, companion mode'', ''switch to companion'']"

definition ADMINISTRATIVE_PHRASES :: "string list" where
  "ADMINISTRATIVE_PHRASES = [''enter administrative mode'', ''ariadne, admin mode'']"

definition TASK_INDICATORS :: "string list" where
  "TASK_INDICATORS =
     [''code'', ''debug'', ''analyze'', ''plan'', ''budget'',
      ''architecture'', ''refactor'', ''profile'', ''optimize'']"

text \<open>The loop \<open>for phrase in phrases: if phrase in lower: return mode\<close>: the
  phrases are tried in order, and the first one found ends the loop with \<open>Some mode\<close>;
  \<open>None\<close> when the loop runs to its end.\<close>

fun first_phrase :: "string list \<Rightarrow> string \<Rightarrow> string \<Rightarrow> string option" where
  "first_phrase [] lowered mode = None"
| "first_phrase (phrase # phrases) lowered mode =
     (if sublist phrase lowered then Some mode else first_phrase phrases lowered mode)"

text \<open>\<open>any(kw in lower for kw in keywords)\<close>.\<close>

fun any_in :: "string list \<Rightarrow> string \<Rightarrow> bool" where
  "any_in [] lowered = False"
| "any_in (kw # kws) lowered = (if sublist kw lowered then True else any_in kws lowered)"

definition detect_mode_switch :: "string \<Rightarrow> string \<Rightarrow> string" where
  "detect_mode_switch text current =
     (let lowered = lower text
      in case first_phrase ADMINISTRATIVE_PHRASES lowered ADMINISTRATIVE of
           Some mode \<Rightarrow> mode
         | None \<Rightarrow>
             (case first_phrase COMPANION_PHRASES lowered COMPANION of
                Some mode \<Rightarrow> mode
              | None \<Rightarrow> if any_in TASK_INDICATORS lowered then OPERATIONAL else current))"

section \<open>The workspace\<close>

text \<open>
  What a tool finds on disk under its \<open>workspace_dir\<close>. A file the tools read is
  absent, present but not readable (\<open>read_text\<close> raises \<open>OSError\<close>), present but not
  valid UTF-8 (\<open>read_text\<close> raises \<open>UnicodeDecodeError\<close>), or holds a text. The notes
  file \<open>ariadne/memory/notes.md\<close> is only appended to and measured: it is its text, or
  \<open>None\<close> when it does not exist. \<open>notes_writable\<close> tells whether an append to it
  goes through: whether \<open>mkdir\<close>, \<open>open\<close> and \<open>write\<close> all succeed, none of them raising
  \<open>OSError\<close> (the directory \<open>ariadne/memory\<close> can be made or exists, and the file can be
  opened for appending). \<open>proposals_md\<close> is the number of entries \<open>*.md\<close> of the
  directory \<open>ariadne/proposals\<close>, or \<open>None\<close> when the directory does not exist.
\<close>

datatype file_state = Missing | Unreadable | Undecodable | Text string

record workspace =
  agents_yaml :: file_state
  guardrails_ts :: file_state
  notes_md :: "string option"
  notes_writable :: bool
  notes_path :: string
  proposals_md :: "nat option"

text \<open>\<open>Path.exists()\<close>.\<close>

fun file_exists :: "file_state \<Rightarrow> bool" where
  "file_exists Missing = False"
| "file_exists Unreadable = True"
| "file_exists Undecodable = True"
| "file_exists (Text s) = True"

text \<open>\<open>Path.read_text(encoding="utf-8")\<close>.\<close>

fun read_text :: "file_state \<Rightarrow> py_error + string" where
  "read_text Missing = Inl OSError"
| "read_text Unreadable = Inl OSError"
| "read_text Undecodable = Inl UnicodeDecodeError"
| "read_text (Text s) = Inr s"

definition notes_content :: "workspace \<Rightarrow> string" where
  "notes_content ws = (case notes_md ws of None \<Rightarrow> [] | Some s \<Rightarrow> s)"

section \<open>Authenticated override (\<open>tools/state_override.py\<close>)\<close>

definition TOKEN_HASH_ENV_VAR :: string where
  "TOKEN_HASH_ENV_VAR = ''ARIADNE_ADMIN_TOKEN_HASH''"

definition VALID_STATES :: "string set" where
  "VALID_STATES = {''operational'', ''companion'', ''administrative''}"

text \<open>The result dict of \<open>StateOverrideTool.run\<close>: its keys \<open>status\<close> and
  \<open>message\<close>.\<close>

record override_result =
  status :: string
  message :: string

text \<open>
  The credential is a \<open>str\<close> of any characters, so it is modelled as the list of its
  code points (each below 0x110000). \<open>token.encode()\<close> gives its UTF-8 bytes, and
  raises \<open>UnicodeEncodeError\<close> when the credential holds a surrogate (0xD800 to
  0xDFFF), which UTF-8 cannot encode.
\<close>

definition utf8_bytes :: "nat \<Rightarrow> string" where
  "utf8_bytes cp =
     (if cp < 0x80 then [char_of cp]
      else if cp < 0x800 then
        [char_of (0xC0 + cp div 0x40), char_of (0x80 + cp mod 0x40)]
      else if cp < 0x10000 then
        [char_of (0xE0 + cp div 0x1000), char_of (0x80 + cp div 0x40 mod 0x40),
         char_of (0x80 + cp mod 0x40)]
      else
        [char_of (0xF0 + cp div 0x40000), char_of (0x80 + cp div 0x1000 mod 0x40),
         char_of (0x80 + cp div 0x40 mod 0x40), char_of (0x80 + cp mod 0x40)])"

definition is_surrogate :: "nat \<Rightarrow> bool" where
  "is_surrogate cp = (0xD800 \<le> cp \<and> cp \<le> 0xDFFF)"

definition str_encode :: "nat list \<Rightarrow> py_error + string" where
  "str_encode s =
     (if list_ex is_surrogate s then Inl UnicodeEncodeError
      else Inr (concat (map utf8_bytes s)))"

text \<open>The \<open>str\<close> whose characters are those of an 8-bit text.\<close>

definition code_points :: "string \<Rightarrow> nat list" where
  "code_points s = map of_char s"

text \<open>
  \<open>hashlib.sha256(data).hexdigest()\<close>: the hash function itself is a parameter
  \<open>sha256\<close> of the model, from the bytes to the 256-bit digest; \<open>hexdigest\<close> writes
  the digest as 64 lower-case hexadecimal digits, the most significant first.
\<close>

definition hexdigest :: "256 word \<Rightarrow> string" where
  "hexdigest w = map (\<lambda>i. ''0123456789abcdef'' ! (unat (drop_bit (4 * i) w) mod 16)) (rev [0..<64])"

text \<open>\<open>hmac.compare_digest\<close> on two \<open>str\<close>: it raises \<open>TypeError\<close> unless both are
  ASCII, and otherwise tells whether they are equal.\<close>

definition compare_digest :: "string \<Rightarrow> string \<Rightarrow> py_error + bool" where
  "compare_digest a b = (if isascii a \<and> isascii b then Inr (a = b) else Inl TypeError)"

text \<open>\<open>os.environ.get(_TOKEN_HASH_ENV_VAR, "")\<close>; the environment is a map from
  names to values.\<close>

definition expected_hash :: "(string \<Rightarrow> string option) \<Rightarrow> string" where
  "expected_hash environ = (case environ TOKEN_HASH_ENV_VAR of None \<Rightarrow> [] | Some v \<Rightarrow> v)"

definition validate_token ::
  "(string \<Rightarrow> 256 word) \<Rightarrow> (string \<Rightarrow> string option) \<Rightarrow> nat list \<Rightarrow> py_error + bool" where
  "validate_token sha256 environ token =
     (if expected_hash environ = [] then Inr False
      else case str_encode token of
          Inl e \<Rightarrow> Inl e
        | Inr data \<Rightarrow>
            compare_digest (hexdigest (sha256 data)) (lower (expected_hash environ)))"

text \<open>The entry \<open>_audit\<close> writes; \<open>ts\<close> is the clock's reading,
  \<open>datetime.now(timezone.utc).isoformat()\<close>.\<close>

definition audit_entry :: "string \<Rightarrow> string \<Rightarrow> string \<Rightarrow> string \<Rightarrow> string" where
  "audit_entry ts event target_state outcome =
     [CHR 0x0A, CHR 0x0A] @ ''---'' @ [CHR 0x0A] @ ''**'' @ ts @ ''** [admin-audit]''
     @ [CHR 0x0A, CHR 0x0A]
     @ ''EVENT: '' @ event @ ''  '' @ [CHR 0x0A]
     @ ''TARGET_STATE: '' @ target_state @ ''  '' @ [CHR 0x0A]
     @ ''OUTCOME: '' @ outcome @ [CHR 0x0A]"

text \<open>\<open>_audit\<close>: the entry is appended to the notes file, which is created when it
  does not exist; when the append cannot go through, \<open>OSError\<close> leaves \<open>_audit\<close> and
  the file is as it was.\<close>

definition audit ::
  "string \<Rightarrow> string \<Rightarrow> string \<Rightarrow> string \<Rightarrow> workspace \<Rightarrow> py_error + workspace" where
  "audit ts event target_state outcome ws =
     (if notes_writable ws then
        Inr (ws\<lparr>notes_md := Some (notes_content ws
                    @ audit_entry ts event target_state outcome)\<rparr>)
      else Inl OSError)"

text \<open>\<open>StateOverrideTool.run\<close>: the result, or the exception that leaves the call,
  and the workspace after the call. No exception is caught in \<open>run\<close>: one raised in
  \<open>_validate_token\<close> or in \<open>_audit\<close> ends the call before any result is returned.\<close>

definition StateOverrideTool_run ::
  "(string \<Rightarrow> 256 word) \<Rightarrow> (string \<Rightarrow> string option) \<Rightarrow> string \<Rightarrow> workspace
     \<Rightarrow> string \<Rightarrow> nat list \<Rightarrow> (py_error + override_result) \<times> workspace" where
  "StateOverrideTool_run sha256 environ ts ws target_state auth_token =
     (if target_state \<notin> VALID_STATES then
        (Inr \<lparr>status = ''error'',
              message = ''Unknown state '' @ quoted target_state @ ''. '' @ ''Valid states: ''
                @ repr_list [''administrative'', ''companion'', ''operational'']\<rparr>, ws)
      else case validate_token sha256 environ auth_token of
          Inl e \<Rightarrow> (Inl e, ws)
        | Inr False \<Rightarrow>
            (case audit ts ''OVERRIDE_REJECTED'' target_state ''invalid token'' ws of
               Inl e \<Rightarrow> (Inl e, ws)
             | Inr ws1 \<Rightarrow>
                 (Inr \<lparr>status = ''error'',
                       message = ''Authentication failed. Override rejected.''\<rparr>, ws1))
        | Inr True \<Rightarrow>
            (case audit ts ''OVERRIDE_APPLIED'' target_state ''authorized'' ws of
               Inl e \<Rightarrow> (Inl e, ws)
             | Inr ws1 \<Rightarrow>
                 (Inr \<lparr>status = ''ok'',
                       message = ''State override to '' @ quoted target_state
                         @ '' authorized and logged.''\<rparr>, ws1)))"

section \<open>Constraint audit (\<open>tools/constraint_audit.py\<close>)\<close>

definition DECLARED_CONSTRAINTS :: "string list" where
  "DECLARED_CONSTRAINTS =
     [''no_cross_state_context_leakage'',
      ''no_emotional_output_in_operational_state'',
      ''no_system_commands_outside_administrative_state'',
      ''no_explicit_content'']"

definition VERIFIABLE_VIA_GUARDRAILS :: "string list" where
  "VERIFIABLE_VIA_GUARDRAILS = [''no_explicit_content'']"

text \<open>The status messages hold an em dash (U+2014), which lies outside the 256
  characters of \<open>char\<close>; it is written as the three bytes of its UTF-8 form. The
  program only compares a status with \<open>"active"\<close>.\<close>

definition em_dash :: string where
  "em_dash = [CHR 0xE2, CHR 0x80, CHR 0x94]"

definition unverifiable :: "string \<Rightarrow> string" where
  "unverifiable why = ''unverifiable '' @ em_dash @ '' '' @ why"

definition check_constraint :: "workspace \<Rightarrow> string \<Rightarrow> bool \<Rightarrow> bool \<Rightarrow> py_error + string" where
  "check_constraint ws constraint agent_yaml_exists guardrails_exists =
     (if \<not> agent_yaml_exists then Inr (unverifiable ''agents/ariadne.yaml missing'')
      else if constraint \<in> set VERIFIABLE_VIA_GUARDRAILS then
        (if \<not> guardrails_exists then Inr (unverifiable ''guardrails.ts missing'')
         else case read_text (guardrails_ts ws) of
             Inr content \<Rightarrow>
               if sublist ''BANNED_PATTERNS'' content then Inr ''active''
               else Inr (unverifiable ''BANNED_PATTERNS not found in guardrails.ts'')
           | Inl OSError \<Rightarrow> Inr (unverifiable ''could not read guardrails.ts'')
           | Inl e \<Rightarrow> Inl e)
      else case read_text (agents_yaml ws) of
          Inr content \<Rightarrow>
            if sublist constraint content then Inr ''active''
            else Inr (''drift '' @ em_dash @ '' '' @ quoted constraint
                      @ '' not found in agents/ariadne.yaml'')
        | Inl OSError \<Rightarrow> Inr (unverifiable ''could not read agents/ariadne.yaml'')
        | Inl e \<Rightarrow> Inl e)"

text \<open>The loop of \<open>ConstraintAuditTool.run\<close> over the declared constraints, from the
  results and the drift flag so far. A record \<open>{"constraint": c, "status": s}\<close> is the
  pair \<open>(c, s)\<close>.\<close>

fun audit_loop ::
  "workspace \<Rightarrow> bool \<Rightarrow> bool \<Rightarrow> string list \<Rightarrow> (string \<times> string) list \<Rightarrow> bool
     \<Rightarrow> py_error + (string \<times> string) list \<times> bool" where
  "audit_loop ws agent_yaml_exists guardrails_exists [] results drift = Inr (results, drift)"
| "audit_loop ws agent_yaml_exists guardrails_exists (constraint # rest) results drift =
     (case check_constraint ws constraint agent_yaml_exists guardrails_exists of
        Inl e \<Rightarrow> Inl e
      | Inr st \<Rightarrow>
          audit_loop ws agent_yaml_exists guardrails_exists rest (results @ [(constraint, st)])
            (if st \<noteq> ''active'' then True else drift))"

record audit_report =
  timestamp :: string
  constraints :: "(string \<times> string) list"
  drift_detected :: bool
  summary :: string

definition ConstraintAuditTool_run :: "string \<Rightarrow> workspace \<Rightarrow> py_error + audit_report" where
  "ConstraintAuditTool_run ts ws =
     (let agent_yaml_exists = file_exists (agents_yaml ws);
          guardrails_exists = file_exists (guardrails_ts ws)
      in case audit_loop ws agent_yaml_exists guardrails_exists DECLARED_CONSTRAINTS [] False of
          Inl e \<Rightarrow> Inl e
        | Inr (results, drift) \<Rightarrow>
            Inr \<lparr>timestamp = ts,
                 constraints = results,
                 drift_detected = drift,
                 summary =
                   (if \<not> drift then ''All constraints active.''
                    else str_nat (length (filter (\<lambda>r. snd r \<noteq> ''active'') results))
                         @ '' constraint(s) require attention.'')\<rparr>)"

section \<open>Diagnostics (\<open>tools/system_diagnostics.py\<close>)\<close>

definition EXPECTED_TOOLS :: "string list" where
  "EXPECTED_TOOLS =
     [''memory_query'', ''proposal_generator'', ''validation_workflow'',
      ''gentle_suggestion'', ''system_diagnostics'', ''state_override'',
      ''constraint_audit'']"

text \<open>The module's own copy of the declared constraints.\<close>

definition DIAGNOSTICS_DECLARED_CONSTRAINTS :: "string list" where
  "DIAGNOSTICS_DECLARED_CONSTRAINTS =
     [''no_cross_state_context_leakage'',
      ''no_emotional_output_in_operational_state'',
      ''no_system_commands_outside_administrative_state'',
      ''no_explicit_content'']"

record memory_report =
  notes_file :: string
  notes_exists :: bool
  notes_bytes :: nat
  proposals_count :: nat

text \<open>\<open>st_size\<close> of a UTF-8 file: a character below 128 is one byte, one from 128
  to 255 is two.\<close>

definition utf8_size :: "string \<Rightarrow> nat" where
  "utf8_size s = sum_list (map (\<lambda>c. if (of_char c :: nat) < 128 then 1 else 2) s)"

definition memory_stats :: "workspace \<Rightarrow> memory_report" where
  "memory_stats ws =
     \<lparr>notes_file = notes_path ws,
      notes_exists = (notes_md ws \<noteq> None),
      notes_bytes = (case notes_md ws of Some s \<Rightarrow> utf8_size s | None \<Rightarrow> 0),
      proposals_count = (case proposals_md ws of Some n \<Rightarrow> n | None \<Rightarrow> 0)\<rparr>"

text \<open>\<open>_tool_availability\<close>: \<open>tool_files\<close> are the names of the files beside the
  module. A dict is the list of its items, in insertion order.\<close>

definition tool_availability :: "string list \<Rightarrow> (string \<times> string) list" where
  "tool_availability tool_files =
     map (\<lambda>tool_name.
            (tool_name, if tool_name @ ''.py'' \<in> set tool_files then ''available'' else ''missing''))
       EXPECTED_TOOLS"

definition constraint_status :: "(string \<times> string) list" where
  "constraint_status = map (\<lambda>constraint. (constraint, ''active'')) DIAGNOSTICS_DECLARED_CONSTRAINTS"

record diagnostics_report =
  diag_timestamp :: string
  state_stability :: string
  memory :: memory_report
  tools :: "(string \<times> string) list"
  diag_constraints :: "(string \<times> string) list"
  uptime_s :: real

text \<open>\<open>SystemDiagnosticsTool.run\<close>; \<open>ts\<close> is the clock's reading and \<open>up\<close> what
  \<open>_uptime\<close> returns (the process's uptime, or \<open>-1.0\<close>).\<close>

definition SystemDiagnosticsTool_run ::
  "string \<Rightarrow> real \<Rightarrow> string list \<Rightarrow> workspace \<Rightarrow> diagnostics_report" where
  "SystemDiagnosticsTool_run ts up tool_files ws =
     \<lparr>diag_timestamp = ts,
      state_stability = ''stable'',
      memory = memory_stats ws,
      tools = tool_availability tool_files,
      diag_constraints = constraint_status,
      uptime_s = up\<rparr>"

section \<open>Proposals as Python values\<close>

text \<open>
  A proposal is a \<open>Dict[str, Any]\<close>. The values modelled are \<open>None\<close>, booleans,
  integers, strings, lists, and dicts with string keys (floating-point numbers are left
  out). A dict is the list of its items in insertion order, with distinct keys; a key is
  looked up with \<^const>\<open>map_of\<close>.
\<close>

datatype pyval =
    PNone
  | PBool bool
  | PInt int
  | PStr string
  | PList "pyval list"
  | PDict "(string \<times> pyval) list"

text \<open>The types \<open>_REQUIRED_FIELDS\<close> and the validator name.\<close>

datatype pytype = TStr | TList | TDict

text \<open>\<open>expected_type.__name__\<close> and \<open>type(v).__name__\<close>.\<close>

fun pytype_name :: "pytype \<Rightarrow> string" where
  "pytype_name TStr = ''str''"
| "pytype_name TList = ''list''"
| "pytype_name TDict = ''dict''"

fun type_name :: "pyval \<Rightarrow> string" where
  "type_name PNone = ''NoneType''"
| "type_name (PBool b) = ''bool''"
| "type_name (PInt i) = ''int''"
| "type_name (PStr s) = ''str''"
| "type_name (PList xs) = ''list''"
| "type_name (PDict kvs) = ''dict''"

fun isinstance :: "pyval \<Rightarrow> pytype \<Rightarrow> bool" where
  "isinstance (PStr s) TStr = True"
| "isinstance (PList xs) TList = True"
| "isinstance (PDict kvs) TDict = True"
| "isinstance v t = False"

text \<open>Truth of a value, as \<open>not v\<close> tests it.\<close>

fun truthy :: "pyval \<Rightarrow> bool" where
  "truthy PNone = False"
| "truthy (PBool b) = b"
| "truthy (PInt i) = (i \<noteq> 0)"
| "truthy (PStr s) = (s \<noteq> [])"
| "truthy (PList xs) = (xs \<noteq> [])"
| "truthy (PDict kvs) = (kvs \<noteq> [])"

text \<open>\<open>d.get(key, default)\<close>.\<close>

definition dict_get :: "(string \<times> pyval) list \<Rightarrow> string \<Rightarrow> pyval \<Rightarrow> pyval" where
  "dict_get d k dflt = (case map_of d k of None \<Rightarrow> dflt | Some v \<Rightarrow> v)"

section \<open>Proposal validation (\<open>tools/validation_workflow.py\<close>)\<close>

definition REQUIRED_FIELDS :: "(string \<times> pytype) list" where
  "REQUIRED_FIELDS =
     [(''title'', TStr), (''phases'', TList), (''resources'', TList),
      (''validation_gates'', TList)]"

text \<open>The required keys of a phase, in the order \<open>sorted(missing)\<close> lists them.\<close>

definition PHASE_REQUIRED_KEYS :: "string list" where
  "PHASE_REQUIRED_KEYS = [''name'', ''outputs'', ''steps'']"

text \<open>The loop of \<open>_check_required_fields\<close> over the required fields; the errors so
  far go in, the errors after the loop come out.\<close>

fun check_required_loop ::
  "(string \<times> pytype) list \<Rightarrow> (string \<times> pyval) list \<Rightarrow> string list \<Rightarrow> string list" where
  "check_required_loop [] proposal errors = errors"
| "check_required_loop ((field, expected_type) # rest) proposal errors =
     check_required_loop rest proposal
       (case map_of proposal field of
          None \<Rightarrow> errors @ [''Missing required field: '' @ quoted field]
        | Some v \<Rightarrow>
            if \<not> isinstance v expected_type then
              errors @ [''Field '' @ quoted field @ '' must be '' @ pytype_name expected_type
                        @ '', got '' @ type_name v]
            else if (expected_type = TList \<or> expected_type = TDict) \<and> \<not> truthy v then
              errors @ [''Field '' @ quoted field @ '' must not be empty'']
            else errors)"

definition check_required_fields :: "(string \<times> pyval) list \<Rightarrow> string list \<Rightarrow> string list" where
  "check_required_fields proposal errors = check_required_loop REQUIRED_FIELDS proposal errors"

text \<open>The body of the loop of \<open>_check_phases\<close> for the phase at index \<open>i\<close>;
  \<open>fmt\<close> is Python's \<open>str()\<close> of a value, which the f-string of the warning
  applies to the phase's name. A phase that is not a dict gives one error, and the loop
  goes on to the next (\<open>continue\<close>).\<close>

definition check_phase ::
  "(pyval \<Rightarrow> string) \<Rightarrow> nat \<Rightarrow> pyval \<Rightarrow> string list \<Rightarrow> string list
     \<Rightarrow> string list \<times> string list" where
  "check_phase fmt i phase errors warnings =
     (case phase of
        PDict d \<Rightarrow>
          (let missing = filter (\<lambda>k. k \<notin> set (map fst d)) PHASE_REQUIRED_KEYS;
               errors1 =
                 (if missing \<noteq> [] then
                    errors @ [''Phase['' @ str_nat i @ ''] missing keys: '' @ repr_list missing]
                  else errors);
               warnings1 =
                 (if \<not> truthy (dict_get d ''steps'' PNone) then
                    warnings @ [''Phase['' @ str_nat i @ ''] (''
                                @ quoted (fmt (dict_get d ''name'' (PStr ''?'')))
                                @ '') has no steps'']
                  else warnings)
           in (errors1, warnings1))
      | _ \<Rightarrow> (errors @ [''Phase['' @ str_nat i @ ''] must be a dict''], warnings))"

text \<open>The loop \<open>for i, phase in enumerate(phases)\<close>, from index \<open>i\<close>.\<close>

fun check_phases_loop ::
  "(pyval \<Rightarrow> string) \<Rightarrow> nat \<Rightarrow> pyval list \<Rightarrow> string list \<Rightarrow> string list
     \<Rightarrow> string list \<times> string list" where
  "check_phases_loop fmt i [] errors warnings = (errors, warnings)"
| "check_phases_loop fmt i (phase # rest) errors warnings =
     (case check_phase fmt i phase errors warnings of
        (errors1, warnings1) \<Rightarrow> check_phases_loop fmt (Suc i) rest errors1 warnings1)"

fun check_phases ::
  "(pyval \<Rightarrow> string) \<Rightarrow> pyval \<Rightarrow> string list \<Rightarrow> string list \<Rightarrow> string list \<times> string list" where
  "check_phases fmt (PList phases) errors warnings = check_phases_loop fmt 0 phases errors warnings"
| "check_phases fmt phases errors warnings = (errors, warnings)"

fun check_resources :: "pyval \<Rightarrow> string list \<Rightarrow> string list" where
  "check_resources (PList resources) warnings =
     (if resources = [] then
        warnings @ [''No resources listed; verify no dependencies are missing'']
      else warnings)"
| "check_resources resources warnings = warnings"

fun check_validation_gates :: "pyval \<Rightarrow> string list \<Rightarrow> string list" where
  "check_validation_gates (PList gates) warnings =
     (if gates = [] then
        warnings @ [''No validation gates defined; consider adding test criteria'']
      else warnings)"
| "check_validation_gates gates warnings = warnings"

record validation_report =
  valid :: bool
  errors :: "string list"
  warnings :: "string list"
  validated_at :: string

definition ValidationWorkflowTool_run ::
  "(pyval \<Rightarrow> string) \<Rightarrow> string \<Rightarrow> (string \<times> pyval) list \<Rightarrow> validation_report" where
  "ValidationWorkflowTool_run fmt ts proposal =
     (let errors0 = check_required_fields proposal [];
          (errors1, warnings1) =
             check_phases fmt (dict_get proposal ''phases'' (PList [])) errors0 [];
          warnings2 = check_resources (dict_get proposal ''resources'' (PList [])) warnings1;
          warnings3 =
             check_validation_gates (dict_get proposal ''validation_gates'' (PList [])) warnings2
      in \<lparr>valid = (length errors1 = 0),
          errors = errors1,
          warnings = warnings3,
          validated_at = ts\<rparr>)"

section \<open>Proposal generation (\<open>tools/proposal_generator.py\<close>)\<close>

text \<open>\<open>re.split(r"[.!?\n]", description)[0]\<close> is the text before the first of the
  four separators.\<close>

definition is_sentence_end :: "char \<Rightarrow> bool" where
  "is_sentence_end c = (c = CHR ''.'' \<or> c = CHR ''!'' \<or> c = CHR ''?'' \<or> c = CHR 0x0A)"

definition extract_title :: "string \<Rightarrow> string" where
  "extract_title description =
     (let first_sentence = strip (takeWhile (\<lambda>c. \<not> is_sentence_end c) description)
      in if first_sentence \<noteq> [] then take 80 first_sentence else take 80 description)"

definition build_phases :: "string \<Rightarrow> pyval list" where
  "build_phases description =
     [PDict [(''name'', PStr ''Analysis''),
             (''steps'', PList [PStr ''Review task description and clarify scope.'',
                                PStr ''Identify dependencies and constraints.'',
                                PStr ''Document assumptions.'']),
             (''outputs'', PList [PStr ''scope_document''])],
      PDict [(''name'', PStr ''Execution''),
             (''steps'', PList [PStr ''Implement the changes described in the task.'',
                                PStr ''Write or update tests covering new behaviour.'',
                                PStr ''Commit with a descriptive message.'']),
             (''outputs'', PList [PStr ''implementation'', PStr ''tests''])],
      PDict [(''name'', PStr ''Validation''),
             (''steps'', PList [PStr ''Run the relevant test suite.'',
                                PStr ''Confirm all validation gates pass.'',
                                PStr ''Peer-review or self-review the diff.'']),
             (''outputs'', PList [PStr ''validation_report''])]]"

definition infer_resources :: "string \<Rightarrow> string list" where
  "infer_resources description =
     (let resources0 = [''repository_access'', ''test_runner''];
          lowered = lower description;
          resources1 =
            (if any_in [''database'', ''sqlite'', ''postgres'', ''mysql''] lowered
             then resources0 @ [''database_access''] else resources0);
          resources2 =
            (if any_in [''api'', ''http'', ''rest'', ''endpoint''] lowered
             then resources1 @ [''network_access''] else resources1);
          resources3 =
            (if any_in [''file'', ''read'', ''write'', ''disk''] lowered
             then resources2 @ [''filesystem_access''] else resources2)
      in resources3)"

definition build_validation_gates :: "string \<Rightarrow> string list" where
  "build_validation_gates title =
     [''All tests pass after implementing: '' @ title,
      ''No regressions in existing test suite.'',
      ''Output matches expected schema.'',
      ''No security-policy violations detected.'']"

text \<open>\<open>ProposalGeneratorTool.run\<close>: the proposal, or the \<open>ValueError\<close> raised for an
  empty or white-space description; \<open>ts\<close> is the clock's reading.\<close>

definition ProposalGeneratorTool_run :: "string \<Rightarrow> string \<Rightarrow> py_error + (string \<times> pyval) list" where
  "ProposalGeneratorTool_run ts task_description =
     (if task_description = [] \<or> strip task_description = [] then Inl ValueError
      else
        let description = strip task_description;
            title = extract_title description
        in Inr [(''title'', PStr title),
                (''phases'', PList (build_phases description)),
                (''resources'', PList (map PStr (infer_resources description))),
                (''validation_gates'', PList (map PStr (build_validation_gates title))),
                (''generated_at'', PStr ts)])"

section \<open>Properties of mode detection\<close>

lemma first_phrase_Some:
  "first_phrase ps lowered mode = (if list_ex (\<lambda>p. sublist p lowered) ps then Some mode else None)"
  by (induction ps) simp_all

lemma any_in_list_ex: "any_in kws lowered = list_ex (\<lambda>kw. sublist kw lowered) kws"
  by (induction kws) simp_all

text \<open>
  Claim C5. Mode detection follows a fixed precedence on the lower-cased text: an
  administrative phrase gives the administrative mode, whatever else the text holds;
  otherwise a companion phrase gives the companion mode; otherwise a task keyword gives
  the operational mode; otherwise the current mode is returned unchanged.
\<close>

theorem detect_mode_switch_precedence:
  "detect_mode_switch text current =
     (if sublist ''enter administrative mode'' (lower text)
         \<or> sublist ''ariadne, admin mode'' (lower text)
      then ''administrative''
      else if sublist ''ariadne, companion mode'' (lower text)
         \<or> sublist ''switch to companion'' (lower text)
      then ''companion''
      else if (\<exists>kw \<in> set [''code'', ''debug'', ''analyze'', ''plan'', ''budget'',
                   ''architecture'', ''refactor'', ''profile'', ''optimize''].
                 sublist kw (lower text))
      then ''operational''
      else current)"
  unfolding detect_mode_switch_def Let_def first_phrase_Some any_in_list_ex
    ADMINISTRATIVE_PHRASES_def COMPANION_PHRASES_def TASK_INDICATORS_def
    ADMINISTRATIVE_def COMPANION_def OPERATIONAL_def list_ex_iff
  by simp

theorem detect_mode_switch_precedence_witness:
  "detect_mode_switch ''Enter administrative mode, then switch to companion and debug the logs''
     ''operational'' = ''administrative''
   \<and> detect_mode_switch ''Ariadne, companion mode then code something'' ''operational''
     = ''companion''
   \<and> detect_mode_switch ''can you debug this function?'' ''companion'' = ''operational''
   \<and> detect_mode_switch ''how are you doing?'' ''companion'' = ''companion''"
  unfolding detect_mode_switch_precedence
  by code_simp

section \<open>Properties of the override\<close>

lemma of_char_lower_char_ascii:
  "(of_char c :: nat) < 128 \<Longrightarrow> (of_char (lower_char c) :: nat) < 128"
  by (auto simp: lower_char_def Let_def)

lemma isascii_lower: "isascii s \<Longrightarrow> isascii (lower s)"
  by (induction s) (simp_all add: isascii_def lower_def of_char_lower_char_ascii)

lemma hex_digit_ascii: "n < 16 \<Longrightarrow> (of_char (''0123456789abcdef'' ! n) :: nat) < 128"
proof -
  assume n: "n < 16"
  have "list_all (\<lambda>c. (of_char c :: nat) < 128) ''0123456789abcdef''"
    by simp
  with n show ?thesis
    unfolding list_all_length by simp
qed

lemma isascii_hexdigest: "isascii (hexdigest w)"
  by (simp add: isascii_def hexdigest_def list_all_iff hex_digit_ascii)

lemma length_hexdigest: "length (hexdigest w) = 64"
  by (simp add: hexdigest_def)


lemma expected_hash_eq:
  "expected_hash environ = (case environ ''ARIADNE_ADMIN_TOKEN_HASH'' of None \<Rightarrow> [] | Some v \<Rightarrow> v)"
  by (simp add: expected_hash_def TOKEN_HASH_ENV_VAR_def)

lemma valid_states_eq: "VALID_STATES = {''operational'', ''companion'', ''administrative''}"
  by (simp add: VALID_STATES_def)

lemma isascii_eq: "isascii s = list_all (\<lambda>c. (of_char c :: nat) < 128) s"
  by (simp add: isascii_def)

lemma audit_entry_rejected:
  "audit_entry ts ''OVERRIDE_REJECTED'' target_state ''invalid token'' =
     [CHR 0x0A, CHR 0x0A] @ ''---'' @ [CHR 0x0A] @ ''**'' @ ts @ ''** [admin-audit]''
                  @ [CHR 0x0A, CHR 0x0A] @ ''EVENT: OVERRIDE_REJECTED  '' @ [CHR 0x0A]
                  @ ''TARGET_STATE: '' @ target_state @ ''  '' @ [CHR 0x0A]
                  @ ''OUTCOME: invalid token'' @ [CHR 0x0A]"
  by (simp add: audit_entry_def)

lemma audit_entry_applied:
  "audit_entry ts ''OVERRIDE_APPLIED'' target_state ''authorized'' =
     [CHR 0x0A, CHR 0x0A] @ ''---'' @ [CHR 0x0A] @ ''**'' @ ts @ ''** [admin-audit]''
                  @ [CHR 0x0A, CHR 0x0A] @ ''EVENT: OVERRIDE_APPLIED  '' @ [CHR 0x0A]
                  @ ''TARGET_STATE: '' @ target_state @ ''  '' @ [CHR 0x0A]
                  @ ''OUTCOME: authorized'' @ [CHR 0x0A]"
  by (simp add: audit_entry_def)

lemma unknown_state_message:
  "''Unknown state '' @ quoted target_state @ ''. '' @ ''Valid states: ''
     @ repr_list [''administrative'', ''companion'', ''operational'']
   = ''Unknown state '' @ [CHR 0x27] @ target_state @ [CHR 0x27]
                     @ ''. Valid states: ['administrative', 'companion', 'operational']''"
  by (simp add: quoted_def repr_list_def)

text \<open>What \<open>_validate_token\<close> returns when it returns: the credential can be encoded
  and the reference is ASCII, or no reference is configured.\<close>

lemma validate_token_no_reference:
  "expected_hash environ = [] \<Longrightarrow> validate_token sha256 environ token = Inr False"
  by (simp add: validate_token_def)

lemma validate_token_encoded:
  assumes "expected_hash environ \<noteq> []" and "str_encode token = Inr data"
    and "isascii (lower (expected_hash environ))"
  shows "validate_token sha256 environ token =
           Inr (hexdigest (sha256 data) = lower (expected_hash environ))"
  using assms by (simp add: validate_token_def compare_digest_def isascii_hexdigest)

lemma run_rejected:
  assumes "target_state \<in> VALID_STATES" and "notes_writable ws"
    and "validate_token sha256 environ auth_token = Inr False"
  shows "StateOverrideTool_run sha256 environ ts ws target_state auth_token =
           (Inr \<lparr>status = ''error'', message = ''Authentication failed. Override rejected.''\<rparr>,
            ws\<lparr>notes_md := Some ((case notes_md ws of None \<Rightarrow> [] | Some s \<Rightarrow> s)
                  @ [CHR 0x0A, CHR 0x0A] @ ''---'' @ [CHR 0x0A] @ ''**'' @ ts @ ''** [admin-audit]''
                  @ [CHR 0x0A, CHR 0x0A] @ ''EVENT: OVERRIDE_REJECTED  '' @ [CHR 0x0A]
                  @ ''TARGET_STATE: '' @ target_state @ ''  '' @ [CHR 0x0A]
                  @ ''OUTCOME: invalid token'' @ [CHR 0x0A])\<rparr>)"
  using assms
  by (simp add: StateOverrideTool_run_def audit_def notes_content_def audit_entry_rejected)

lemma run_applied:
  assumes "target_state \<in> VALID_STATES" and "notes_writable ws"
    and "validate_token sha256 environ auth_token = Inr True"
  shows "StateOverrideTool_run sha256 environ ts ws target_state auth_token =
           (Inr \<lparr>status = ''ok'',
                 message = ''State override to '' @ [CHR 0x27] @ target_state @ [CHR 0x27] @ '' authorized and logged.''\<rparr>,
            ws\<lparr>notes_md := Some ((case notes_md ws of None \<Rightarrow> [] | Some s \<Rightarrow> s)
                  @ [CHR 0x0A, CHR 0x0A] @ ''---'' @ [CHR 0x0A] @ ''**'' @ ts @ ''** [admin-audit]''
                  @ [CHR 0x0A, CHR 0x0A] @ ''EVENT: OVERRIDE_APPLIED  '' @ [CHR 0x0A]
                  @ ''TARGET_STATE: '' @ target_state @ ''  '' @ [CHR 0x0A]
                  @ ''OUTCOME: authorized'' @ [CHR 0x0A])\<rparr>)"
  using assms
  by (simp add: StateOverrideTool_run_def audit_def notes_content_def audit_entry_applied
      quoted_def)

text \<open>
  Claim C1, as amended. With no reference digest configured (the variable
  \<open>ARIADNE_ADMIN_TOKEN_HASH\<close> absent or empty) and a notes file that can be appended
  to, a call with a valid target state returns status \<open>error\<close> for every credential
  and every hash function, and the notes file after the call is the notes file before
  it followed by exactly one entry, the \<open>OVERRIDE_REJECTED\<close> one.
\<close>

theorem override_fail_closed:
  assumes "environ ''ARIADNE_ADMIN_TOKEN_HASH'' = None
           \<or> environ ''ARIADNE_ADMIN_TOKEN_HASH'' = Some []"
    and "target_state \<in> {''operational'', ''companion'', ''administrative''}"
    and "notes_writable ws"
  shows "StateOverrideTool_run sha256 environ ts ws target_state auth_token =
           (Inr \<lparr>status = ''error'', message = ''Authentication failed. Override rejected.''\<rparr>,
            ws\<lparr>notes_md := Some ((case notes_md ws of None \<Rightarrow> [] | Some s \<Rightarrow> s)
                  @ [CHR 0x0A, CHR 0x0A] @ ''---'' @ [CHR 0x0A] @ ''**'' @ ts @ ''** [admin-audit]''
                  @ [CHR 0x0A, CHR 0x0A] @ ''EVENT: OVERRIDE_REJECTED  '' @ [CHR 0x0A]
                  @ ''TARGET_STATE: '' @ target_state @ ''  '' @ [CHR 0x0A]
                  @ ''OUTCOME: invalid token'' @ [CHR 0x0A])\<rparr>)"
proof -
  from assms(1) have "expected_hash environ = []"
    unfolding expected_hash_eq by auto
  then have "validate_token sha256 environ auth_token = Inr False"
    by (rule validate_token_no_reference)
  with assms(2,3) show ?thesis
    unfolding valid_states_eq [symmetric] by (rule run_rejected)
qed

theorem override_fail_closed_witness:
  "StateOverrideTool_run (\<lambda>data. 0) (\<lambda>name. None) ''2026-01-01T00:00:00+00:00''
      \<lparr>agents_yaml = Missing, guardrails_ts = Missing, notes_md = Some ''# notes'',
       notes_writable = True, notes_path = ''ariadne/memory/notes.md'',
       proposals_md = None\<rparr>
      ''operational'' (code_points ''zeroclaw_test_token'')
   = (Inr \<lparr>status = ''error'', message = ''Authentication failed. Override rejected.''\<rparr>,
      \<lparr>agents_yaml = Missing, guardrails_ts = Missing, notes_md = Some (''# notes'' @ [CHR 0x0A, CHR 0x0A] @ ''---'' @ [CHR 0x0A] @ ''**'' @ ''2026-01-01T00:00:00+00:00'' @ ''** [admin-audit]''
                  @ [CHR 0x0A, CHR 0x0A] @ ''EVENT: OVERRIDE_REJECTED  '' @ [CHR 0x0A]
                  @ ''TARGET_STATE: '' @ ''operational'' @ ''  '' @ [CHR 0x0A]
                  @ ''OUTCOME: invalid token'' @ [CHR 0x0A]),
       notes_writable = True, notes_path = ''ariadne/memory/notes.md'',
       proposals_md = None\<rparr>)"
proof -
  have h1: "(\<lambda>name::string. None :: string option) ''ARIADNE_ADMIN_TOKEN_HASH'' = None
            \<or> (\<lambda>name::string. None) ''ARIADNE_ADMIN_TOKEN_HASH'' = Some []"
    by simp
  have h2: "''operational'' \<in> {''operational'', ''companion'', ''administrative''}"
    by simp
  have h3: "notes_writable \<lparr>agents_yaml = Missing, guardrails_ts = Missing, notes_md = Some ''# notes'',
       notes_writable = True, notes_path = ''ariadne/memory/notes.md'',
       proposals_md = None\<rparr>"
    by simp
  show ?thesis
    using override_fail_closed [OF h1 h2 h3, of "\<lambda>data. 0" "''2026-01-01T00:00:00+00:00''"
        "code_points ''zeroclaw_test_token''"]
    by simp
qed

text \<open>
  Claim C1 as stated fails where the notes file cannot be appended to: with no
  reference configured and a valid target state, \<open>OSError\<close> leaves the call, no
  status is returned and no entry is written.
\<close>

theorem override_fail_closed_counterexample:
  "StateOverrideTool_run (\<lambda>data. 0) (\<lambda>name. None) ''2026-01-01T00:00:00+00:00''
      \<lparr>agents_yaml = Missing, guardrails_ts = Missing, notes_md = Some ''# notes'',
       notes_writable = False, notes_path = ''ariadne/memory/notes.md'',
       proposals_md = None\<rparr>
      ''operational'' (code_points ''any-token'')
   = (Inl OSError,
      \<lparr>agents_yaml = Missing, guardrails_ts = Missing, notes_md = Some ''# notes'',
       notes_writable = False, notes_path = ''ariadne/memory/notes.md'',
       proposals_md = None\<rparr>)"
  by (simp add: StateOverrideTool_run_def validate_token_def expected_hash_def audit_def
      VALID_STATES_def)

text \<open>
  Claim C2, as amended. The reference is the value of \<open>ARIADNE_ADMIN_TOKEN_HASH\<close>, or
  the empty text when the variable is not set; a credential matches when a reference is
  configured and the hexadecimal SHA-256 digest of the credential's UTF-8 bytes equals
  the lower-cased reference. With a valid target state, a notes file that can be
  appended to and a matching credential, the status is \<open>ok\<close> and exactly the
  \<open>OVERRIDE_APPLIED\<close> entry is appended. With a valid target state, a notes file that
  can be appended to, a reference that is ASCII text, and a credential that does not
  match (no reference is configured, or the credential can be encoded and its digest
  differs), the status is \<open>error\<close> and exactly the \<open>OVERRIDE_REJECTED\<close> entry is
  appended. With a target state outside the three valid ones the status is \<open>error\<close>
  and the workspace is unchanged.
\<close>

theorem override_outcomes:
  assumes "reference = (case environ ''ARIADNE_ADMIN_TOKEN_HASH'' of None \<Rightarrow> [] | Some v \<Rightarrow> v)"
    and "before = (case notes_md ws of None \<Rightarrow> [] | Some s \<Rightarrow> s)"
  shows
    "(target_state \<in> {''operational'', ''companion'', ''administrative''}
        \<and> notes_writable ws
        \<and> reference \<noteq> []
        \<and> (\<exists>data. str_encode auth_token = Inr data
                    \<and> hexdigest (sha256 data) = lower reference)
      \<longrightarrow> StateOverrideTool_run sha256 environ ts ws target_state auth_token =
            (Inr \<lparr>status = ''ok'',
                  message = ''State override to '' @ [CHR 0x27] @ target_state @ [CHR 0x27] @ '' authorized and logged.''\<rparr>,
             ws\<lparr>notes_md := Some (before
                  @ [CHR 0x0A, CHR 0x0A] @ ''---'' @ [CHR 0x0A] @ ''**'' @ ts @ ''** [admin-audit]''
                  @ [CHR 0x0A, CHR 0x0A] @ ''EVENT: OVERRIDE_APPLIED  '' @ [CHR 0x0A]
                  @ ''TARGET_STATE: '' @ target_state @ ''  '' @ [CHR 0x0A]
                  @ ''OUTCOME: authorized'' @ [CHR 0x0A])\<rparr>))
     \<and> (target_state \<in> {''operational'', ''companion'', ''administrative''}
        \<and> notes_writable ws
        \<and> list_all (\<lambda>c. (of_char c :: nat) < 128) reference
        \<and> (reference = []
             \<or> (\<exists>data. str_encode auth_token = Inr data
                       \<and> hexdigest (sha256 data) \<noteq> lower reference))
      \<longrightarrow> StateOverrideTool_run sha256 environ ts ws target_state auth_token =
            (Inr \<lparr>status = ''error'',
                  message = ''Authentication failed. Override rejected.''\<rparr>,
             ws\<lparr>notes_md := Some (before
                  @ [CHR 0x0A, CHR 0x0A] @ ''---'' @ [CHR 0x0A] @ ''**'' @ ts @ ''** [admin-audit]''
                  @ [CHR 0x0A, CHR 0x0A] @ ''EVENT: OVERRIDE_REJECTED  '' @ [CHR 0x0A]
                  @ ''TARGET_STATE: '' @ target_state @ ''  '' @ [CHR 0x0A]
                  @ ''OUTCOME: invalid token'' @ [CHR 0x0A])\<rparr>))
     \<and> (target_state \<notin> {''operational'', ''companion'', ''administrative''}
      \<longrightarrow> StateOverrideTool_run sha256 environ ts ws target_state auth_token =
            (Inr \<lparr>status = ''error'',
                  message = ''Unknown state '' @ [CHR 0x27] @ target_state @ [CHR 0x27]
                     @ ''. Valid states: ['administrative', 'companion', 'operational']''\<rparr>,
             ws))"
proof (intro conjI impI)
  have r: "reference = expected_hash environ"
    using assms(1) by (simp add: expected_hash_eq)
  {
    assume a: "target_state \<in> {''operational'', ''companion'', ''administrative''}
        \<and> notes_writable ws
        \<and> reference \<noteq> []
        \<and> (\<exists>data. str_encode auth_token = Inr data
                    \<and> hexdigest (sha256 data) = lower reference)"
    then obtain data where d: "str_encode auth_token = Inr data"
      and m: "hexdigest (sha256 data) = lower reference"
      by blast
    from m have "isascii (lower (expected_hash environ))"
      unfolding r [symmetric] by (metis isascii_hexdigest)
    with a d r have "validate_token sha256 environ auth_token =
        Inr (hexdigest (sha256 data) = lower (expected_hash environ))"
      by (intro validate_token_encoded) simp_all
    with m r have v: "validate_token sha256 environ auth_token = Inr True"
      by simp
    from a have t: "target_state \<in> VALID_STATES" and w: "notes_writable ws"
      by (simp_all add: valid_states_eq)
    show "StateOverrideTool_run sha256 environ ts ws target_state auth_token =
            (Inr \<lparr>status = ''ok'',
                  message = ''State override to '' @ [CHR 0x27] @ target_state @ [CHR 0x27] @ '' authorized and logged.''\<rparr>,
             ws\<lparr>notes_md := Some (before
                  @ [CHR 0x0A, CHR 0x0A] @ ''---'' @ [CHR 0x0A] @ ''**'' @ ts @ ''** [admin-audit]''
                  @ [CHR 0x0A, CHR 0x0A] @ ''EVENT: OVERRIDE_APPLIED  '' @ [CHR 0x0A]
                  @ ''TARGET_STATE: '' @ target_state @ ''  '' @ [CHR 0x0A]
                  @ ''OUTCOME: authorized'' @ [CHR 0x0A])\<rparr>)"
      unfolding assms(2) by (rule run_applied [OF t w v])
  }
  {
    assume a: "target_state \<in> {''operational'', ''companion'', ''administrative''}
        \<and> notes_writable ws
        \<and> list_all (\<lambda>c. (of_char c :: nat) < 128) reference
        \<and> (reference = []
             \<or> (\<exists>data. str_encode auth_token = Inr data
                       \<and> hexdigest (sha256 data) \<noteq> lower reference))"
    then have asc: "isascii (lower (expected_hash environ))"
      unfolding r [symmetric] by (simp add: isascii_eq [symmetric] isascii_lower)
    from a have t: "target_state \<in> VALID_STATES" and w: "notes_writable ws"
      by (simp_all add: valid_states_eq)
    have v: "validate_token sha256 environ auth_token = Inr False"
    proof (cases "reference = []")
      case True
      then show ?thesis
        using r by (simp add: validate_token_no_reference)
    next
      case False
      with a obtain data where d: "str_encode auth_token = Inr data"
        and m: "hexdigest (sha256 data) \<noteq> lower reference"
        by blast
      from False r have ne: "expected_hash environ \<noteq> []"
        by simp
      from validate_token_encoded [OF ne d asc] m r show ?thesis
        by simp
    qed
    show "StateOverrideTool_run sha256 environ ts ws target_state auth_token =
            (Inr \<lparr>status = ''error'',
                  message = ''Authentication failed. Override rejected.''\<rparr>,
             ws\<lparr>notes_md := Some (before
                  @ [CHR 0x0A, CHR 0x0A] @ ''---'' @ [CHR 0x0A] @ ''**'' @ ts @ ''** [admin-audit]''
                  @ [CHR 0x0A, CHR 0x0A] @ ''EVENT: OVERRIDE_REJECTED  '' @ [CHR 0x0A]
                  @ ''TARGET_STATE: '' @ target_state @ ''  '' @ [CHR 0x0A]
                  @ ''OUTCOME: invalid token'' @ [CHR 0x0A])\<rparr>)"
      unfolding assms(2) by (rule run_rejected [OF t w v])
  }
  {
    assume "target_state \<notin> {''operational'', ''companion'', ''administrative''}"
    then have "target_state \<notin> VALID_STATES"
      by (simp add: valid_states_eq)
    then show "StateOverrideTool_run sha256 environ ts ws target_state auth_token =
            (Inr \<lparr>status = ''error'',
                  message = ''Unknown state '' @ [CHR 0x27] @ target_state @ [CHR 0x27]
                     @ ''. Valid states: ['administrative', 'companion', 'operational']''\<rparr>,
             ws)"
      by (simp add: StateOverrideTool_run_def quoted_def repr_list_def)
  }
qed

lemma rev_upt64:
  "rev [0..<64] =
     [63, 62, 61, 60, 59, 58, 57, 56, 55, 54, 53, 52, 51, 50, 49, 48, 47, 46, 45, 44,
      43, 42, 41, 40, 39, 38, 37, 36, 35, 34, 33, 32, 31, 30, 29, 28, 27, 26, 25, 24,
      23, 22, 21, 20, 19, 18, 17, 16, 15, 14, 13, 12, 11, 10, 9, 8, 7, 6, 5, 4, 3, 2,
      Suc 0, 0]"
  by code_simp

lemma hexdigest_a1:
  "hexdigest 0xa1 = ''00000000000000000000000000000000000000000000000000000000000000a1''"
  by (simp add: hexdigest_def rev_upt64 drop_bit_eq_div)

lemma hexdigest_2b:
  "hexdigest 0x2b = ''000000000000000000000000000000000000000000000000000000000000002b''"
  by (simp add: hexdigest_def rev_upt64 drop_bit_eq_div)

lemma lower_digest_a1:
  "lower ''00000000000000000000000000000000000000000000000000000000000000a1''
     = ''00000000000000000000000000000000000000000000000000000000000000a1''"
  by (simp add: lower_def lower_char_def)

lemma isascii_digest_a1:
  "isascii ''00000000000000000000000000000000000000000000000000000000000000a1''"
  by (simp add: isascii_def)


lemma utf8_bytes_ascii: "(of_char c :: nat) < 128 \<Longrightarrow> utf8_bytes (of_char c) = [c]"
  by (simp add: utf8_bytes_def)

lemma not_surrogate_ascii: "(of_char c :: nat) < 128 \<Longrightarrow> \<not> is_surrogate (of_char c)"
  by (simp add: is_surrogate_def)

lemma str_encode_ascii: "isascii s \<Longrightarrow> str_encode (code_points s) = Inr s"
proof -
  assume a: "isascii s"
  then have "\<not> list_ex is_surrogate (code_points s)"
    by (induction s) (simp_all add: isascii_def code_points_def not_surrogate_ascii)
  moreover from a have "concat (map utf8_bytes (code_points s)) = s"
    by (induction s) (simp_all add: isascii_def code_points_def utf8_bytes_ascii)
  ultimately show ?thesis
    by (simp add: str_encode_def)
qed

lemma encode_test_token:
  "str_encode (code_points ''zeroclaw_test_token'') = Inr ''zeroclaw_test_token''"
  by (rule str_encode_ascii) (simp add: isascii_def)

lemma encode_wrong_token: "str_encode (code_points ''wrong-token'') = Inr ''wrong-token''"
  by (rule str_encode_ascii) (simp add: isascii_def)

lemma encode_surrogate: "str_encode [0xDC80] = Inl UnicodeEncodeError"
  by (simp add: str_encode_def is_surrogate_def)

theorem override_outcomes_witness:
  "StateOverrideTool_run (\<lambda>data. if data = ''zeroclaw_test_token'' then 0xa1 else 0x2b)
      (\<lambda>name. if name = ''ARIADNE_ADMIN_TOKEN_HASH''
               then Some ''00000000000000000000000000000000000000000000000000000000000000a1''
               else None)
      ''2026-01-01T00:00:00+00:00''
      \<lparr>agents_yaml = Missing, guardrails_ts = Missing, notes_md = None,
       notes_writable = True, notes_path = ''ariadne/memory/notes.md'',
       proposals_md = None\<rparr>
      ''operational'' (code_points ''zeroclaw_test_token'')
   = (Inr \<lparr>status = ''ok'',
           message = ''State override to '' @ [CHR 0x27] @ ''operational'' @ [CHR 0x27] @ '' authorized and logged.''\<rparr>,
      \<lparr>agents_yaml = Missing, guardrails_ts = Missing, notes_md = Some ([CHR 0x0A, CHR 0x0A] @ ''---'' @ [CHR 0x0A] @ ''**'' @ ''2026-01-01T00:00:00+00:00'' @ ''** [admin-audit]''
                  @ [CHR 0x0A, CHR 0x0A] @ ''EVENT: OVERRIDE_APPLIED  '' @ [CHR 0x0A]
                  @ ''TARGET_STATE: '' @ ''operational'' @ ''  '' @ [CHR 0x0A]
                  @ ''OUTCOME: authorized'' @ [CHR 0x0A]),
       notes_writable = True, notes_path = ''ariadne/memory/notes.md'',
       proposals_md = None\<rparr>)
   \<and> StateOverrideTool_run (\<lambda>data. if data = ''zeroclaw_test_token'' then 0xa1 else 0x2b)
      (\<lambda>name. if name = ''ARIADNE_ADMIN_TOKEN_HASH''
               then Some ''00000000000000000000000000000000000000000000000000000000000000a1''
               else None)
      ''2026-01-01T00:00:00+00:00''
      \<lparr>agents_yaml = Missing, guardrails_ts = Missing, notes_md = None,
       notes_writable = True, notes_path = ''ariadne/memory/notes.md'',
       proposals_md = None\<rparr>
      ''operational'' (code_points ''wrong-token'')
   = (Inr \<lparr>status = ''error'', message = ''Authentication failed. Override rejected.''\<rparr>,
      \<lparr>agents_yaml = Missing, guardrails_ts = Missing, notes_md = Some ([CHR 0x0A, CHR 0x0A] @ ''---'' @ [CHR 0x0A] @ ''**'' @ ''2026-01-01T00:00:00+00:00'' @ ''** [admin-audit]''
                  @ [CHR 0x0A, CHR 0x0A] @ ''EVENT: OVERRIDE_REJECTED  '' @ [CHR 0x0A]
                  @ ''TARGET_STATE: '' @ ''operational'' @ ''  '' @ [CHR 0x0A]
                  @ ''OUTCOME: invalid token'' @ [CHR 0x0A]),
       notes_writable = True, notes_path = ''ariadne/memory/notes.md'',
       proposals_md = None\<rparr>)
   \<and> StateOverrideTool_run (\<lambda>data. if data = ''zeroclaw_test_token'' then 0xa1 else 0x2b)
      (\<lambda>name. if name = ''ARIADNE_ADMIN_TOKEN_HASH''
               then Some ''00000000000000000000000000000000000000000000000000000000000000a1''
               else None)
      ''2026-01-01T00:00:00+00:00''
      \<lparr>agents_yaml = Missing, guardrails_ts = Missing, notes_md = None,
       notes_writable = True, notes_path = ''ariadne/memory/notes.md'',
       proposals_md = None\<rparr>
      ''unknown_state'' (code_points ''zeroclaw_test_token'')
   = (Inr \<lparr>status = ''error'',
           message = ''Unknown state '' @ [CHR 0x27] @ ''unknown_state'' @ [CHR 0x27]
                     @ ''. Valid states: ['administrative', 'companion', 'operational']''\<rparr>,
      \<lparr>agents_yaml = Missing, guardrails_ts = Missing, notes_md = None,
       notes_writable = True, notes_path = ''ariadne/memory/notes.md'',
       proposals_md = None\<rparr>)"
proof -
  let ?sha = "\<lambda>data::string. if data = ''zeroclaw_test_token'' then 0xa1 else (0x2b :: 256 word)"
  let ?env = "\<lambda>name::string. if name = ''ARIADNE_ADMIN_TOKEN_HASH''
               then Some ''00000000000000000000000000000000000000000000000000000000000000a1''
               else None"
  let ?ws = "\<lparr>agents_yaml = Missing, guardrails_ts = Missing, notes_md = None,
       notes_writable = True, notes_path = ''ariadne/memory/notes.md'',
       proposals_md = None\<rparr>"
  let ?ref = "''00000000000000000000000000000000000000000000000000000000000000a1''"
  have e: "?ref = (case ?env ''ARIADNE_ADMIN_TOKEN_HASH'' of None \<Rightarrow> [] | Some v \<Rightarrow> v)"
    by simp
  have b: "[] = (case notes_md ?ws of None \<Rightarrow> [] | Some s \<Rightarrow> s)"
    by simp
  have asc: "list_all (\<lambda>c. (of_char c :: nat) < 128) ?ref"
    by simp
  have v: "''operational'' \<in> {''operational'', ''companion'', ''administrative''}"
    "''unknown_state'' \<notin> {''operational'', ''companion'', ''administrative''}"
    by simp_all
  have w: "notes_writable ?ws"
    by simp
  have ne: "?ref \<noteq> []"
    by simp
  have m1: "\<exists>data. str_encode (code_points ''zeroclaw_test_token'') = Inr data
              \<and> hexdigest (?sha data) = lower ?ref"
    unfolding lower_digest_a1 encode_test_token by (simp add: hexdigest_a1)
  have m2: "?ref = [] \<or> (\<exists>data. str_encode (code_points ''wrong-token'') = Inr data
              \<and> hexdigest (?sha data) \<noteq> lower ?ref)"
    unfolding lower_digest_a1 encode_wrong_token by (simp add: hexdigest_2b)
  note t1 = override_outcomes [where reference = "?ref" and environ = "?env" and before = "[]"
      and ws = "?ws" and target_state = "''operational''" and auth_token = "code_points ''zeroclaw_test_token''"
      and ?sha256.0 = "?sha" and ts = "''2026-01-01T00:00:00+00:00''", OF e b]
  note t2 = override_outcomes [where reference = "?ref" and environ = "?env" and before = "[]"
      and ws = "?ws" and target_state = "''operational''" and auth_token = "code_points ''wrong-token''"
      and ?sha256.0 = "?sha" and ts = "''2026-01-01T00:00:00+00:00''", OF e b]
  note t3 = override_outcomes [where reference = "?ref" and environ = "?env" and before = "[]"
      and ws = "?ws" and target_state = "''unknown_state''" and auth_token = "code_points ''zeroclaw_test_token''"
      and ?sha256.0 = "?sha" and ts = "''2026-01-01T00:00:00+00:00''", OF e b]
  have r1: "StateOverrideTool_run ?sha ?env ''2026-01-01T00:00:00+00:00'' ?ws
      ''operational'' (code_points ''zeroclaw_test_token'')
    = (Inr \<lparr>status = ''ok'',
           message = ''State override to '' @ [CHR 0x27] @ ''operational'' @ [CHR 0x27] @ '' authorized and logged.''\<rparr>,
       ?ws\<lparr>notes_md := Some ([]
                  @ [CHR 0x0A, CHR 0x0A] @ ''---'' @ [CHR 0x0A] @ ''**'' @ ''2026-01-01T00:00:00+00:00'' @ ''** [admin-audit]''
                  @ [CHR 0x0A, CHR 0x0A] @ ''EVENT: OVERRIDE_APPLIED  '' @ [CHR 0x0A]
                  @ ''TARGET_STATE: '' @ ''operational'' @ ''  '' @ [CHR 0x0A]
                  @ ''OUTCOME: authorized'' @ [CHR 0x0A])\<rparr>)"
    by (rule t1 [THEN conjunct1, THEN mp]) (intro conjI v(1) w ne m1)
  have r2: "StateOverrideTool_run ?sha ?env ''2026-01-01T00:00:00+00:00'' ?ws
      ''operational'' (code_points ''wrong-token'')
    = (Inr \<lparr>status = ''error'', message = ''Authentication failed. Override rejected.''\<rparr>,
       ?ws\<lparr>notes_md := Some ([]
                  @ [CHR 0x0A, CHR 0x0A] @ ''---'' @ [CHR 0x0A] @ ''**'' @ ''2026-01-01T00:00:00+00:00'' @ ''** [admin-audit]''
                  @ [CHR 0x0A, CHR 0x0A] @ ''EVENT: OVERRIDE_REJECTED  '' @ [CHR 0x0A]
                  @ ''TARGET_STATE: '' @ ''operational'' @ ''  '' @ [CHR 0x0A]
                  @ ''OUTCOME: invalid token'' @ [CHR 0x0A])\<rparr>)"
    by (rule t2 [THEN conjunct2, THEN conjunct1, THEN mp]) (intro conjI v(1) w asc m2)
  have r3: "StateOverrideTool_run ?sha ?env ''2026-01-01T00:00:00+00:00'' ?ws
      ''unknown_state'' (code_points ''zeroclaw_test_token'')
    = (Inr \<lparr>status = ''error'',
           message = ''Unknown state '' @ [CHR 0x27] @ ''unknown_state'' @ [CHR 0x27]
                     @ ''. Valid states: ['administrative', 'companion', 'operational']''\<rparr>,
       ?ws)"
    by (rule t3 [THEN conjunct2, THEN conjunct2, THEN mp]) (rule v(2))
  show ?thesis
    unfolding r1 r2 r3 by simp
qed

text \<open>
  Claim C2 as stated fails on three calls with a valid target state and a credential
  that does not match. With a reference that holds a character beyond ASCII the
  comparison raises \<open>TypeError\<close>; with a credential that holds a surrogate the encoding
  raises \<open>UnicodeEncodeError\<close>; with a notes file that cannot be appended to the write
  raises \<open>OSError\<close>. In each the exception leaves the call: no status is returned and
  no entry is written.
\<close>

theorem override_outcomes_counterexample:
  "StateOverrideTool_run (\<lambda>data. if data = ''zeroclaw_test_token'' then 0xa1 else 0x2b)
      (\<lambda>name. if name = ''ARIADNE_ADMIN_TOKEN_HASH''
               then Some (''caf'' @ [CHR 0xE9]) else None)
      ''2026-01-01T00:00:00+00:00''
      \<lparr>agents_yaml = Missing, guardrails_ts = Missing, notes_md = None,
       notes_writable = True, notes_path = ''ariadne/memory/notes.md'',
       proposals_md = None\<rparr>
      ''operational'' (code_points ''wrong-token'')
   = (Inl TypeError,
      \<lparr>agents_yaml = Missing, guardrails_ts = Missing, notes_md = None,
       notes_writable = True, notes_path = ''ariadne/memory/notes.md'',
       proposals_md = None\<rparr>)
   \<and> StateOverrideTool_run (\<lambda>data. if data = ''zeroclaw_test_token'' then 0xa1 else 0x2b)
      (\<lambda>name. if name = ''ARIADNE_ADMIN_TOKEN_HASH''
               then Some ''00000000000000000000000000000000000000000000000000000000000000a1''
               else None)
      ''2026-01-01T00:00:00+00:00''
      \<lparr>agents_yaml = Missing, guardrails_ts = Missing, notes_md = None,
       notes_writable = True, notes_path = ''ariadne/memory/notes.md'',
       proposals_md = None\<rparr>
      ''operational'' [0xDC80]
   = (Inl UnicodeEncodeError,
      \<lparr>agents_yaml = Missing, guardrails_ts = Missing, notes_md = None,
       notes_writable = True, notes_path = ''ariadne/memory/notes.md'',
       proposals_md = None\<rparr>)
   \<and> StateOverrideTool_run (\<lambda>data. if data = ''zeroclaw_test_token'' then 0xa1 else 0x2b)
      (\<lambda>name. if name = ''ARIADNE_ADMIN_TOKEN_HASH''
               then Some ''00000000000000000000000000000000000000000000000000000000000000a1''
               else None)
      ''2026-01-01T00:00:00+00:00''
      \<lparr>agents_yaml = Missing, guardrails_ts = Missing, notes_md = None,
       notes_writable = False, notes_path = ''ariadne/memory/notes.md'',
       proposals_md = None\<rparr>
      ''operational'' (code_points ''wrong-token'')
   = (Inl OSError,
      \<lparr>agents_yaml = Missing, guardrails_ts = Missing, notes_md = None,
       notes_writable = False, notes_path = ''ariadne/memory/notes.md'',
       proposals_md = None\<rparr>)"
proof -
  have na: "\<not> isascii (lower (''caf'' @ [CHR 0xE9]))"
    by (simp add: isascii_def lower_def lower_char_def)
  have asc: "isascii (lower ''00000000000000000000000000000000000000000000000000000000000000a1'')"
    unfolding lower_digest_a1 by (simp add: isascii_def)
  have asc2: "isascii ''000000000000000000000000000000000000000000000000000000000000002b''"
    by (simp add: isascii_def)
  have v: "''operational'' \<in> VALID_STATES"
    by (simp add: VALID_STATES_def)
  show ?thesis
    unfolding StateOverrideTool_run_def validate_token_def expected_hash_def
      TOKEN_HASH_ENV_VAR_def compare_digest_def audit_def
    using v na asc asc2
    by (simp add: encode_wrong_token encode_surrogate lower_digest_a1 hexdigest_2b)
qed

text \<open>A reference value with a character beyond ASCII is no hexadecimal digest: for every
  credential that can be encoded the comparison raises \<open>TypeError\<close>, the call returns
  nothing and nothing is written.\<close>

lemma override_non_ascii_reference:
  assumes "target_state \<in> VALID_STATES" and "\<not> isascii (lower (expected_hash environ))"
    and "str_encode auth_token = Inr data"
  shows "StateOverrideTool_run sha256 environ ts ws target_state auth_token = (Inl TypeError, ws)"
proof -
  from assms(2) have "expected_hash environ \<noteq> []"
    by (auto simp: isascii_def lower_def)
  with assms show ?thesis
    by (simp add: StateOverrideTool_run_def validate_token_def compare_digest_def)
qed


section \<open>Properties of the constraint audit and of diagnostics\<close>

lemma audit_loop_Inr:
  "audit_loop ws ye ge cs results drift = Inr (rs, d) \<Longrightarrow>
     \<exists>sts. length sts = length cs \<and> rs = results @ zip cs sts
       \<and> (d \<longleftrightarrow> drift \<or> list_ex (\<lambda>st. st \<noteq> ''active'') sts)"
proof (induction cs arbitrary: results drift)
  case Nil
  then show ?case by simp
next
  case (Cons c cs)
  from Cons.prems obtain st where st: "check_constraint ws c ye ge = Inr st"
    and rec: "audit_loop ws ye ge cs (results @ [(c, st)])
                (if st \<noteq> ''active'' then True else drift) = Inr (rs, d)"
    by (auto split: sum.splits)
  from Cons.IH [OF rec] obtain sts where
    l: "length sts = length cs"
    and r: "rs = (results @ [(c, st)]) @ zip cs sts"
    and dd: "d \<longleftrightarrow> (if st \<noteq> ''active'' then True else drift)
        \<or> list_ex (\<lambda>st. st \<noteq> ''active'') sts"
    by blast
  have "length (st # sts) = length (c # cs)"
    using l by simp
  moreover have "rs = results @ zip (c # cs) (st # sts)"
    using r by simp
  moreover have "d \<longleftrightarrow> drift \<or> list_ex (\<lambda>st. st \<noteq> ''active'') (st # sts)"
    using dd by auto
  ultimately show ?case by blast
qed

lemma audit_run_Inr:
  assumes "ConstraintAuditTool_run ts ws = Inr r"
  shows "\<exists>sts. length sts = length DECLARED_CONSTRAINTS
           \<and> constraints r = zip DECLARED_CONSTRAINTS sts
           \<and> (drift_detected r \<longleftrightarrow> list_ex (\<lambda>st. st \<noteq> ''active'') sts)"
proof -
  from assms obtain rs d where
    loop: "audit_loop ws (file_exists (agents_yaml ws)) (file_exists (guardrails_ts ws))
             DECLARED_CONSTRAINTS [] False = Inr (rs, d)"
    and r: "constraints r = rs" "drift_detected r = d"
    by (auto simp: ConstraintAuditTool_run_def Let_def split: sum.splits prod.splits)
  from audit_loop_Inr [OF loop] r show ?thesis by simp
qed

lemma zip_all_active:
  "length cs = length sts \<Longrightarrow>
     (zip cs sts = map (\<lambda>c. (c, a)) cs) = (\<not> list_ex (\<lambda>st. st \<noteq> a) sts)"
  by (induction cs sts rule: list_induct2) auto

lemma list_ex_zip_snd:
  "length cs = length sts \<Longrightarrow>
     list_ex (\<lambda>st. st \<noteq> a) sts = (\<exists>e \<in> set (zip cs sts). snd e \<noteq> a)"
  by (induction cs sts rule: list_induct2) auto

lemma unverifiable_not_active: "unverifiable why \<noteq> ''active''"
  by (simp add: unverifiable_def)






lemma check_constraint_active:
  assumes "agents_yaml ws = Text y" and "guardrails_ts ws = Text g"
    and "sublist ''BANNED_PATTERNS'' g" and "sublist c y"
  shows "check_constraint ws c True True = Inr ''active''"
  using assms by (simp add: check_constraint_def)

lemma audit_loop_active:
  assumes "agents_yaml ws = Text y" and "guardrails_ts ws = Text g"
    and "sublist ''BANNED_PATTERNS'' g"
  shows "list_all (\<lambda>c. sublist c y) cs \<Longrightarrow>
         audit_loop ws True True cs results drift =
           Inr (results @ map (\<lambda>c. (c, ''active'')) cs, drift)"
  by (induction cs arbitrary: results drift)
     (simp_all add: check_constraint_active [OF assms])

text \<open>
  Claim C6, as amended. In every report the audit returns, \<open>drift_detected\<close> is true
  exactly when some constraint's status differs from \<open>active\<close>. Auditing against a
  readable configuration that contains the name of every declared constraint, together
  with a readable \<open>guardrails.ts\<close> that contains \<open>BANNED_PATTERNS\<close>, gives all
  constraints \<open>active\<close> and \<open>drift_detected = False\<close>.
\<close>

theorem audit_drift_detected:
  "(\<forall>r. ConstraintAuditTool_run ts ws = Inr r \<longrightarrow>
        drift_detected r = (\<exists>e \<in> set (constraints r). snd e \<noteq> ''active''))
   \<and> (\<forall>y g. agents_yaml ws = Text y \<and> list_all (\<lambda>c. sublist c y) DECLARED_CONSTRAINTS
           \<and> guardrails_ts ws = Text g \<and> sublist ''BANNED_PATTERNS'' g \<longrightarrow>
        ConstraintAuditTool_run ts ws =
          Inr \<lparr>timestamp = ts,
               constraints = map (\<lambda>c. (c, ''active'')) DECLARED_CONSTRAINTS,
               drift_detected = False,
               summary = ''All constraints active.''\<rparr>)"
proof (intro conjI allI impI)
  fix r assume "ConstraintAuditTool_run ts ws = Inr r"
  from audit_run_Inr [OF this] obtain sts where
    l: "length sts = length DECLARED_CONSTRAINTS"
    and c: "constraints r = zip DECLARED_CONSTRAINTS sts"
    and d: "drift_detected r \<longleftrightarrow> list_ex (\<lambda>st. st \<noteq> ''active'') sts"
    by blast
  from l have "length DECLARED_CONSTRAINTS = length sts" by simp
  from list_ex_zip_snd [OF this] c d
  show "drift_detected r = (\<exists>e \<in> set (constraints r). snd e \<noteq> ''active'')"
    by simp
next
  fix y g
  assume a: "agents_yaml ws = Text y \<and> list_all (\<lambda>c. sublist c y) DECLARED_CONSTRAINTS
           \<and> guardrails_ts ws = Text g \<and> sublist ''BANNED_PATTERNS'' g"
  then have a1: "agents_yaml ws = Text y" and a2: "list_all (\<lambda>c. sublist c y) DECLARED_CONSTRAINTS"
    and a3: "guardrails_ts ws = Text g" and a4: "sublist ''BANNED_PATTERNS'' g"
    by simp_all
  have loop: "audit_loop ws True True DECLARED_CONSTRAINTS [] False =
      Inr ([] @ map (\<lambda>c. (c, ''active'')) DECLARED_CONSTRAINTS, False)"
    by (rule audit_loop_active [OF a1 a3 a4 a2])
  from a show "ConstraintAuditTool_run ts ws =
          Inr \<lparr>timestamp = ts,
               constraints = map (\<lambda>c. (c, ''active'')) DECLARED_CONSTRAINTS,
               drift_detected = False,
               summary = ''All constraints active.''\<rparr>"
    unfolding ConstraintAuditTool_run_def Let_def
    by (simp add: loop)
qed

lemma diag_declared: "DIAGNOSTICS_DECLARED_CONSTRAINTS = DECLARED_CONSTRAINTS"
  by (simp add: DIAGNOSTICS_DECLARED_CONSTRAINTS_def DECLARED_CONSTRAINTS_def)

text \<open>
  Claim C8, as amended. For every workspace on which the audit returns a report, the
  constraints section of the diagnostics snapshot names the same constraints as the
  report, in the same order, and gives each the status \<open>active\<close>; it equals the
  report's constraints exactly when the audit detects no drift.
\<close>

theorem diagnostics_constraints_vs_audit:
  assumes "ConstraintAuditTool_run ts ws = Inr r"
  shows "map fst (diag_constraints (SystemDiagnosticsTool_run ts' up tool_files ws))
           = map fst (constraints r)
         \<and> list_all (\<lambda>e. snd e = ''active'')
             (diag_constraints (SystemDiagnosticsTool_run ts' up tool_files ws))
         \<and> ((diag_constraints (SystemDiagnosticsTool_run ts' up tool_files ws) = constraints r)
              = (\<not> drift_detected r))"
proof -
  from audit_run_Inr [OF assms] obtain sts where
    l: "length sts = length DECLARED_CONSTRAINTS"
    and c: "constraints r = zip DECLARED_CONSTRAINTS sts"
    and d: "drift_detected r \<longleftrightarrow> list_ex (\<lambda>st. st \<noteq> ''active'') sts"
    by blast
  have dc: "diag_constraints (SystemDiagnosticsTool_run ts' up tool_files ws)
              = map (\<lambda>c. (c, ''active'')) DECLARED_CONSTRAINTS"
    by (simp add: SystemDiagnosticsTool_run_def constraint_status_def diag_declared)
  from l have l': "length DECLARED_CONSTRAINTS = length sts" by simp
  have "(zip DECLARED_CONSTRAINTS sts = map (\<lambda>c. (c, ''active'')) DECLARED_CONSTRAINTS)
          = (\<not> drift_detected r)"
    using zip_all_active [OF l'] d by simp
  then have e: "(map (\<lambda>c. (c, ''active'')) DECLARED_CONSTRAINTS = zip DECLARED_CONSTRAINTS sts)
          = (\<not> drift_detected r)"
    by auto
  have f: "map fst (zip DECLARED_CONSTRAINTS sts) = DECLARED_CONSTRAINTS"
    using l by simp
  show ?thesis
    unfolding dc c using e f by (simp add: list_all_iff comp_def)
qed

text \<open>
  Claim C10. Whatever the workspace holds, the diagnostics snapshot reports
  \<open>state_stability = "stable"\<close> and the status \<open>active\<close> for each of the four declared
  constraints.
\<close>

theorem diagnostics_constants:
  "state_stability (SystemDiagnosticsTool_run ts up tool_files ws) = ''stable''
   \<and> diag_constraints (SystemDiagnosticsTool_run ts up tool_files ws) =
       [(''no_cross_state_context_leakage'', ''active''),
        (''no_emotional_output_in_operational_state'', ''active''),
        (''no_system_commands_outside_administrative_state'', ''active''),
        (''no_explicit_content'', ''active'')]"
  by (simp add: SystemDiagnosticsTool_run_def constraint_status_def
      DIAGNOSTICS_DECLARED_CONSTRAINTS_def)

lemma yaml_names:
  "list_all (\<lambda>c. sublist c ''constraints: no_cross_state_context_leakage, no_emotional_output_in_operational_state, no_system_commands_outside_administrative_state, no_explicit_content'') DECLARED_CONSTRAINTS"
  by code_simp

lemma guardrails_marker: "sublist ''BANNED_PATTERNS'' ''export const BANNED_PATTERNS = [];''"
  by code_simp

text \<open>
  Claim C6 as stated fails: the configuration below contains the name of every declared
  constraint, \<open>guardrails.ts\<close> is absent, and the audit reports drift, with
  \<open>no_explicit_content\<close> unverifiable.
\<close>

theorem audit_drift_detected_counterexample:
  "list_all (\<lambda>c. sublist c ''constraints: no_cross_state_context_leakage, no_emotional_output_in_operational_state, no_system_commands_outside_administrative_state, no_explicit_content'') DECLARED_CONSTRAINTS
   \<and> ConstraintAuditTool_run ''2026-01-01T00:00:00+00:00''
       \<lparr>agents_yaml = Text ''constraints: no_cross_state_context_leakage, no_emotional_output_in_operational_state, no_system_commands_outside_administrative_state, no_explicit_content'',
        guardrails_ts = Missing, notes_md = None, notes_writable = True,
        notes_path = ''ariadne/memory/notes.md'', proposals_md = None\<rparr>
     = Inr \<lparr>timestamp = ''2026-01-01T00:00:00+00:00'',
            constraints =
              [(''no_cross_state_context_leakage'', ''active''),
               (''no_emotional_output_in_operational_state'', ''active''),
               (''no_system_commands_outside_administrative_state'', ''active''),
               (''no_explicit_content'', unverifiable ''guardrails.ts missing'')],
            drift_detected = True,
            summary = ''1 constraint(s) require attention.''\<rparr>"
  by code_simp


theorem audit_drift_detected_witness:
  "ConstraintAuditTool_run ''2026-01-01T00:00:00+00:00''
       \<lparr>agents_yaml = Text ''constraints: no_cross_state_context_leakage, no_emotional_output_in_operational_state, no_system_commands_outside_administrative_state, no_explicit_content'',
        guardrails_ts = Text ''export const BANNED_PATTERNS = [];'', notes_md = None, notes_writable = True,
        notes_path = ''ariadne/memory/notes.md'', proposals_md = None\<rparr>
     = Inr \<lparr>timestamp = ''2026-01-01T00:00:00+00:00'',
            constraints =
              [(''no_cross_state_context_leakage'', ''active''),
               (''no_emotional_output_in_operational_state'', ''active''),
               (''no_system_commands_outside_administrative_state'', ''active''),
               (''no_explicit_content'', ''active'')],
            drift_detected = False,
            summary = ''All constraints active.''\<rparr>
   \<and> drift_detected \<lparr>timestamp = ''2026-01-01T00:00:00+00:00'',
            constraints =
              [(''no_cross_state_context_leakage'', ''active''),
               (''no_emotional_output_in_operational_state'', ''active''),
               (''no_system_commands_outside_administrative_state'', ''active''),
               (''no_explicit_content'', ''active'')],
            drift_detected = False,
            summary = ''All constraints active.''\<rparr>
       = (\<exists>e \<in> set (constraints \<lparr>timestamp = ''2026-01-01T00:00:00+00:00'',
            constraints =
              [(''no_cross_state_context_leakage'', ''active''),
               (''no_emotional_output_in_operational_state'', ''active''),
               (''no_system_commands_outside_administrative_state'', ''active''),
               (''no_explicit_content'', ''active'')],
            drift_detected = False,
            summary = ''All constraints active.''\<rparr>). snd e \<noteq> ''active'')"
proof -
  let ?ws = "\<lparr>agents_yaml = Text ''constraints: no_cross_state_context_leakage, no_emotional_output_in_operational_state, no_system_commands_outside_administrative_state, no_explicit_content'',
        guardrails_ts = Text ''export const BANNED_PATTERNS = [];'', notes_md = None, notes_writable = True,
        notes_path = ''ariadne/memory/notes.md'', proposals_md = None\<rparr>"
  note t = audit_drift_detected [of "''2026-01-01T00:00:00+00:00''" ?ws]
  have h: "agents_yaml ?ws = Text ''constraints: no_cross_state_context_leakage, no_emotional_output_in_operational_state, no_system_commands_outside_administrative_state, no_explicit_content''
      \<and> list_all (\<lambda>c. sublist c ''constraints: no_cross_state_context_leakage, no_emotional_output_in_operational_state, no_system_commands_outside_administrative_state, no_explicit_content'') DECLARED_CONSTRAINTS
      \<and> guardrails_ts ?ws = Text ''export const BANNED_PATTERNS = [];''
      \<and> sublist ''BANNED_PATTERNS'' ''export const BANNED_PATTERNS = [];''"
    using yaml_names guardrails_marker by simp
  from t h have r: "ConstraintAuditTool_run ''2026-01-01T00:00:00+00:00'' ?ws =
      Inr \<lparr>timestamp = ''2026-01-01T00:00:00+00:00'',
           constraints = map (\<lambda>c. (c, ''active'')) DECLARED_CONSTRAINTS,
           drift_detected = False,
           summary = ''All constraints active.''\<rparr>"
    by blast
  from t r have "drift_detected \<lparr>timestamp = ''2026-01-01T00:00:00+00:00'',
           constraints = map (\<lambda>c. (c, ''active'')) DECLARED_CONSTRAINTS,
           drift_detected = False,
           summary = ''All constraints active.''\<rparr>
       = (\<exists>e \<in> set (constraints \<lparr>timestamp = ''2026-01-01T00:00:00+00:00'',
           constraints = map (\<lambda>c. (c, ''active'')) DECLARED_CONSTRAINTS,
           drift_detected = False,
           summary = ''All constraints active.''\<rparr>). snd e \<noteq> ''active'')"
    by blast
  with r show ?thesis
    by (simp add: DECLARED_CONSTRAINTS_def)
qed


text \<open>
  Claim C8 as stated fails: without \<open>agents/ariadne.yaml\<close> the audit gives every
  constraint the status \<open>unverifiable\<close>, and the diagnostics snapshot of the same
  workspace gives every constraint the status \<open>active\<close>.
\<close>

theorem diagnostics_constraints_vs_audit_counterexample:
  "ConstraintAuditTool_run ''2026-01-01T00:00:00+00:00''
       \<lparr>agents_yaml = Missing,
        guardrails_ts = Text ''export const BANNED_PATTERNS = [];'', notes_md = None, notes_writable = True,
        notes_path = ''ariadne/memory/notes.md'', proposals_md = None\<rparr>
     = Inr \<lparr>timestamp = ''2026-01-01T00:00:00+00:00'',
            constraints =
              [(''no_cross_state_context_leakage'', unverifiable ''agents/ariadne.yaml missing''),
               (''no_emotional_output_in_operational_state'', unverifiable ''agents/ariadne.yaml missing''),
               (''no_system_commands_outside_administrative_state'', unverifiable ''agents/ariadne.yaml missing''),
               (''no_explicit_content'', unverifiable ''agents/ariadne.yaml missing'')],
            drift_detected = True,
            summary = ''4 constraint(s) require attention.''\<rparr>
   \<and> diag_constraints (SystemDiagnosticsTool_run ''2026-01-01T00:00:00+00:00'' 0 []
       \<lparr>agents_yaml = Missing,
        guardrails_ts = Text ''export const BANNED_PATTERNS = [];'', notes_md = None, notes_writable = True,
        notes_path = ''ariadne/memory/notes.md'', proposals_md = None\<rparr>)
     = [(''no_cross_state_context_leakage'', ''active''),
               (''no_emotional_output_in_operational_state'', ''active''),
               (''no_system_commands_outside_administrative_state'', ''active''),
               (''no_explicit_content'', ''active'')]
   \<and> diag_constraints (SystemDiagnosticsTool_run ''2026-01-01T00:00:00+00:00'' 0 []
       \<lparr>agents_yaml = Missing,
        guardrails_ts = Text ''export const BANNED_PATTERNS = [];'', notes_md = None, notes_writable = True,
        notes_path = ''ariadne/memory/notes.md'', proposals_md = None\<rparr>)
     \<noteq> constraints \<lparr>timestamp = ''2026-01-01T00:00:00+00:00'',
            constraints =
              [(''no_cross_state_context_leakage'', unverifiable ''agents/ariadne.yaml missing''),
               (''no_emotional_output_in_operational_state'', unverifiable ''agents/ariadne.yaml missing''),
               (''no_system_commands_outside_administrative_state'', unverifiable ''agents/ariadne.yaml missing''),
               (''no_explicit_content'', unverifiable ''agents/ariadne.yaml missing'')],
            drift_detected = True,
            summary = ''4 constraint(s) require attention.''\<rparr>"
  by (simp add: ConstraintAuditTool_run_def Let_def DECLARED_CONSTRAINTS_def
      check_constraint_def unverifiable_not_active str_nat.simps
      SystemDiagnosticsTool_run_def constraint_status_def DIAGNOSTICS_DECLARED_CONSTRAINTS_def
      unverifiable_not_active [symmetric])

theorem diagnostics_constraints_vs_audit_witness:
  "ConstraintAuditTool_run ''2026-01-01T00:00:00+00:00''
       \<lparr>agents_yaml = Text ''constraints: no_cross_state_context_leakage, no_emotional_output_in_operational_state, no_system_commands_outside_administrative_state, no_explicit_content'',
        guardrails_ts = Text ''export const BANNED_PATTERNS = [];'', notes_md = None, notes_writable = True,
        notes_path = ''ariadne/memory/notes.md'', proposals_md = None\<rparr>
     = Inr \<lparr>timestamp = ''2026-01-01T00:00:00+00:00'',
            constraints =
              [(''no_cross_state_context_leakage'', ''active''),
               (''no_emotional_output_in_operational_state'', ''active''),
               (''no_system_commands_outside_administrative_state'', ''active''),
               (''no_explicit_content'', ''active'')],
            drift_detected = False,
            summary = ''All constraints active.''\<rparr>
   \<and> map fst (diag_constraints (SystemDiagnosticsTool_run ''2026-01-01T00:00:00+00:00'' 0 []
       \<lparr>agents_yaml = Text ''constraints: no_cross_state_context_leakage, no_emotional_output_in_operational_state, no_system_commands_outside_administrative_state, no_explicit_content'',
        guardrails_ts = Text ''export const BANNED_PATTERNS = [];'', notes_md = None, notes_writable = True,
        notes_path = ''ariadne/memory/notes.md'', proposals_md = None\<rparr>))
     = map fst (constraints \<lparr>timestamp = ''2026-01-01T00:00:00+00:00'',
            constraints =
              [(''no_cross_state_context_leakage'', ''active''),
               (''no_emotional_output_in_operational_state'', ''active''),
               (''no_system_commands_outside_administrative_state'', ''active''),
               (''no_explicit_content'', ''active'')],
            drift_detected = False,
            summary = ''All constraints active.''\<rparr>)
   \<and> diag_constraints (SystemDiagnosticsTool_run ''2026-01-01T00:00:00+00:00'' 0 []
       \<lparr>agents_yaml = Text ''constraints: no_cross_state_context_leakage, no_emotional_output_in_operational_state, no_system_commands_outside_administrative_state, no_explicit_content'',
        guardrails_ts = Text ''export const BANNED_PATTERNS = [];'', notes_md = None, notes_writable = True,
        notes_path = ''ariadne/memory/notes.md'', proposals_md = None\<rparr>)
     = constraints \<lparr>timestamp = ''2026-01-01T00:00:00+00:00'',
            constraints =
              [(''no_cross_state_context_leakage'', ''active''),
               (''no_emotional_output_in_operational_state'', ''active''),
               (''no_system_commands_outside_administrative_state'', ''active''),
               (''no_explicit_content'', ''active'')],
            drift_detected = False,
            summary = ''All constraints active.''\<rparr>"
proof -
  let ?ws = "\<lparr>agents_yaml = Text ''constraints: no_cross_state_context_leakage, no_emotional_output_in_operational_state, no_system_commands_outside_administrative_state, no_explicit_content'',
        guardrails_ts = Text ''export const BANNED_PATTERNS = [];'', notes_md = None, notes_writable = True,
        notes_path = ''ariadne/memory/notes.md'', proposals_md = None\<rparr>"
  let ?r = "\<lparr>timestamp = ''2026-01-01T00:00:00+00:00'',
            constraints =
              [(''no_cross_state_context_leakage'', ''active''),
               (''no_emotional_output_in_operational_state'', ''active''),
               (''no_system_commands_outside_administrative_state'', ''active''),
               (''no_explicit_content'', ''active'')],
            drift_detected = False,
            summary = ''All constraints active.''\<rparr>"
  have r: "ConstraintAuditTool_run ''2026-01-01T00:00:00+00:00'' ?ws = Inr ?r"
    by code_simp
  from diagnostics_constraints_vs_audit [OF r, of "''2026-01-01T00:00:00+00:00''" 0 "[]"]
  show ?thesis
    using r by simp
qed

section \<open>Properties of the proposal pipeline\<close>

lemma infer_resources_nonempty: "infer_resources description \<noteq> []"
  by (simp add: infer_resources_def Let_def)

lemma build_validation_gates_nonempty: "build_validation_gates title \<noteq> []"
  by (simp add: build_validation_gates_def)

lemma check_required_generated:
  assumes "resources \<noteq> []" and "gates \<noteq> []" and "phases \<noteq> []"
  shows "check_required_fields
           [(''title'', PStr title), (''phases'', PList phases), (''resources'', PList resources),
            (''validation_gates'', PList gates), (''generated_at'', PStr ts)] [] = []"
  using assms by (simp add: check_required_fields_def REQUIRED_FIELDS_def)

lemma check_phases_generated:
  "check_phases fmt (PList (build_phases description)) [] [] = ([], [])"
  by (simp add: build_phases_def check_phase_def PHASE_REQUIRED_KEYS_def dict_get_def)

text \<open>
  Claim C4. For every task description that is not empty and not only white space, the
  generator returns a proposal, and the validator's report on that proposal has no
  error and \<open>valid = True\<close>.
\<close>

theorem generate_then_validate:
  assumes "task_description \<noteq> []" and "strip task_description \<noteq> []"
  shows "\<exists>proposal. ProposalGeneratorTool_run ts task_description = Inr proposal
           \<and> valid (ValidationWorkflowTool_run fmt ts' proposal)
           \<and> errors (ValidationWorkflowTool_run fmt ts' proposal) = []"
proof -
  let ?d = "strip task_description"
  let ?p = "[(''title'', PStr (extract_title ?d)),
             (''phases'', PList (build_phases ?d)),
             (''resources'', PList (map PStr (infer_resources ?d))),
             (''validation_gates'', PList (map PStr (build_validation_gates (extract_title ?d)))),
             (''generated_at'', PStr ts)]"
  have g: "ProposalGeneratorTool_run ts task_description = Inr ?p"
    using assms by (simp add: ProposalGeneratorTool_run_def Let_def)
  have ph: "build_phases ?d \<noteq> []"
    by (simp add: build_phases_def)
  have req: "check_required_fields ?p [] = []"
    by (rule check_required_generated)
       (simp_all add: infer_resources_nonempty build_validation_gates_nonempty ph)
  have get: "dict_get ?p ''phases'' (PList []) = PList (build_phases ?d)"
    by (simp add: dict_get_def)
  have "errors (ValidationWorkflowTool_run fmt ts' ?p) = []"
    unfolding ValidationWorkflowTool_run_def Let_def req get check_phases_generated
    by simp
  moreover from this have "valid (ValidationWorkflowTool_run fmt ts' ?p)"
    by (simp add: ValidationWorkflowTool_run_def Let_def split: prod.splits)
  ultimately show ?thesis
    using g by blast
qed

theorem generate_then_validate_witness:
  "''Migrate existing sqlite database schema'' \<noteq> []
   \<and> strip ''Migrate existing sqlite database schema'' \<noteq> []
   \<and> (\<exists>proposal.
         ProposalGeneratorTool_run ''2026-01-01T00:00:00+00:00''
           ''Migrate existing sqlite database schema'' = Inr proposal
         \<and> valid (ValidationWorkflowTool_run (\<lambda>v. case v of PStr s \<Rightarrow> s | _ \<Rightarrow> ''?'')
                    ''2026-01-01T00:00:01+00:00'' proposal)
         \<and> errors (ValidationWorkflowTool_run (\<lambda>v. case v of PStr s \<Rightarrow> s | _ \<Rightarrow> ''?'')
                    ''2026-01-01T00:00:01+00:00'' proposal) = [])"
proof -
  have h1: "''Migrate existing sqlite database schema'' \<noteq> []"
    by simp
  have h2: "strip ''Migrate existing sqlite database schema'' \<noteq> []"
    by code_simp
  from generate_then_validate [OF h1 h2] h1 h2 show ?thesis
    by blast
qed

text \<open>
  Claim C3 says that an empty \<open>resources\<close> list and an empty \<open>validation_gates\<close> list
  give only a warning each, so that the report stays valid. The validator on a proposal
  with a title, one well-formed phase and both lists empty: the report is not valid,
  and each of the two lists gives one error besides its warning.
\<close>

theorem validate_empty_resources:
  "ValidationWorkflowTool_run fmt ts
     [(''title'', PStr ''Test proposal''),
      (''phases'', PList [PDict [(''name'', PStr ''Analysis''),
                                 (''steps'', PList [PStr ''Identify scope'']),
                                 (''outputs'', PList [PStr ''scope_doc''])]]),
      (''resources'', PList []),
      (''validation_gates'', PList [])]
   = \<lparr>valid = False,
      errors = [''Field '' @ quoted ''resources'' @ '' must not be empty'',
                ''Field '' @ quoted ''validation_gates'' @ '' must not be empty''],
      warnings = [''No resources listed; verify no dependencies are missing'',
                  ''No validation gates defined; consider adding test criteria''],
      validated_at = ts\<rparr>"
  by (simp add: ValidationWorkflowTool_run_def Let_def check_required_fields_def
      REQUIRED_FIELDS_def check_phase_def PHASE_REQUIRED_KEYS_def dict_get_def)

text \<open>The body of the loop of \<open>_check_required_fields\<close> only appends.\<close>

lemma check_required_loop_grows:
  "\<exists>extra. check_required_loop fs proposal errs = errs @ extra"
proof (induction fs arbitrary: errs)
  case Nil
  then show ?case by simp
next
  case (Cons f fs)
  obtain field expected_type where f: "f = (field, expected_type)"
    by (cases f)
  define errs1 where "errs1 =
    (case map_of proposal field of
       None \<Rightarrow> errs @ [''Missing required field: '' @ quoted field]
     | Some v \<Rightarrow>
         if \<not> isinstance v expected_type then
           errs @ [''Field '' @ quoted field @ '' must be '' @ pytype_name expected_type
                   @ '', got '' @ type_name v]
         else if (expected_type = TList \<or> expected_type = TDict) \<and> \<not> truthy v then
           errs @ [''Field '' @ quoted field @ '' must not be empty'']
         else errs)"
  have "\<exists>x. errs1 = errs @ x"
    unfolding errs1_def by (simp split: option.splits)
  then obtain x where x: "errs1 = errs @ x" by blast
  have step: "check_required_loop (f # fs) proposal errs = check_required_loop fs proposal errs1"
    unfolding f errs1_def by simp
  from Cons.IH [of errs1] obtain y where "check_required_loop fs proposal errs1 = errs1 @ y"
    by blast
  with step x have "check_required_loop (f # fs) proposal errs = errs @ (x @ y)"
    by simp
  then show ?case by blast
qed

lemma check_required_loop_empty_list:
  assumes "map_of proposal field = Some (PList [])" and "(field, TList) \<in> set fs"
  shows "check_required_loop fs proposal errs \<noteq> []"
  using assms(2)
proof (induction fs arbitrary: errs)
  case Nil
  then show ?case by simp
next
  case (Cons f fs)
  obtain fld expected_type where f: "f = (fld, expected_type)"
    by (cases f)
  show ?case
  proof (cases "f = (field, TList)")
    case True
    then have "check_required_loop (f # fs) proposal errs =
        check_required_loop fs proposal
          (errs @ [''Field '' @ quoted field @ '' must not be empty''])"
      using assms(1) by simp
    moreover obtain extra where "check_required_loop fs proposal
          (errs @ [''Field '' @ quoted field @ '' must not be empty''])
        = (errs @ [''Field '' @ quoted field @ '' must not be empty'']) @ extra"
      using check_required_loop_grows by blast
    ultimately show ?thesis by simp
  next
    case False
    with Cons.prems have "(field, TList) \<in> set fs" by simp
    from Cons.IH [OF this] show ?thesis
      unfolding f check_required_loop.simps by blast
  qed
qed

lemma check_phase_grows:
  "\<exists>extra. fst (check_phase fmt i phase errs warns) = errs @ extra"
  by (cases phase) (simp_all add: check_phase_def Let_def)

lemma check_phases_loop_grows:
  "\<exists>extra. fst (check_phases_loop fmt i phases errs warns) = errs @ extra"
proof (induction phases arbitrary: i errs warns)
  case Nil
  then show ?case by simp
next
  case (Cons phase phases)
  obtain e1 w1 where c: "check_phase fmt i phase errs warns = (e1, w1)"
    by (cases "check_phase fmt i phase errs warns")
  from check_phase_grows [of fmt i phase errs warns] c
  obtain x where e1: "e1 = errs @ x" by auto
  from Cons.IH [of "Suc i" e1 w1] obtain y where
    "fst (check_phases_loop fmt (Suc i) phases e1 w1) = e1 @ y" by blast
  then show ?case
    using c e1 by simp
qed

lemma check_phases_grows:
  "\<exists>extra. fst (check_phases fmt phases errs warns) = errs @ extra"
  by (cases phases) (simp_all add: check_phases_loop_grows)

text \<open>A required list field that is present and empty makes the report invalid,
  whatever else the proposal holds.\<close>

lemma empty_list_field_invalid:
  assumes "map_of proposal field = Some (PList [])"
    and "field \<in> {''phases'', ''resources'', ''validation_gates''}"
  shows "\<not> valid (ValidationWorkflowTool_run fmt ts proposal)"
proof -
  from assms(2) have "(field, TList) \<in> set REQUIRED_FIELDS"
    by (auto simp: REQUIRED_FIELDS_def)
  from check_required_loop_empty_list [OF assms(1) this]
  have ne: "check_required_fields proposal [] \<noteq> []"
    by (simp add: check_required_fields_def)
  obtain extra where "fst (check_phases fmt (dict_get proposal ''phases'' (PList []))
      (check_required_fields proposal []) []) = check_required_fields proposal [] @ extra"
    using check_phases_grows by blast
  with ne have "fst (check_phases fmt (dict_get proposal ''phases'' (PList []))
      (check_required_fields proposal []) []) \<noteq> []"
    by simp
  then show ?thesis
    by (auto simp: ValidationWorkflowTool_run_def Let_def split: prod.splits)
qed

end
